theory Spec2Isabelle
  imports Main "HOL-Library.Word"
begin

unbundle bit_operations_syntax

section \<open>Bytes and errors\<close>

type_synonym byte = "8 word"

text \<open>
  Every error value the modelled code returns, one constructor per message:
  \<^item> \<open>ErrDHValueOutOfRange\<close>: \<^verbatim>\<open>"otr: DH value out of range"\<close>
  \<^item> \<open>ErrBadCommitMAC\<close>: \<^verbatim>\<open>"otr: bad commit MAC in reveal signature message"\<close>
  \<^item> \<open>ErrGxCorrupt\<close>: \<^verbatim>\<open>"otr: gx corrupt after decryption"\<close>
  \<^item> \<open>ErrCorruptRevealSig\<close>: \<^verbatim>\<open>"otr: corrupt reveal signature message"\<close>
  \<^item> \<open>ErrCannotCreateAESCipher k\<close>:
    \<^verbatim>\<open>"otr: cannot create AES cipher from reveal signature message: "\<close> followed by the
    message of \<^verbatim>\<open>aes.KeySizeError(k)\<close>
  \<^item> \<open>ErrInRevealSig e\<close>: \<^verbatim>\<open>"otr: in reveal signature message: "\<close> followed by the
    message of \<open>e\<close>
  \<^item> \<open>ErrMissingGy\<close>, \<open>ErrMissingX\<close>: \<^verbatim>\<open>"missing gy"\<close>, \<^verbatim>\<open>"missing x"\<close>
  \<^item> \<open>KeySizeError k\<close>: \<^verbatim>\<open>aes.KeySizeError\<close> of \<^verbatim>\<open>crypto/aes\<close>
  \<^item> \<open>EOF\<close>, \<open>ErrUnexpectedEOF\<close>: the errors of \<^verbatim>\<open>io.ReadFull\<close> on an exhausted reader
  \<^item> \<open>ErrWrongProtocolVersion\<close>, \<open>ErrEncryptedMessageWithNoSecureChannel\<close>,
    \<open>ErrInvalidOTRMessage\<close>: the dispatcher's errors
  \<^item> \<open>Panic\<close>: a run-time panic (slice bounds out of range, nil dereference).
\<close>

datatype error =
    ErrDHValueOutOfRange
  | ErrBadCommitMAC
  | ErrGxCorrupt
  | ErrCorruptRevealSig
  | ErrCannotCreateAESCipher nat
  | ErrInRevealSig error
  | ErrMissingGy
  | ErrMissingX
  | KeySizeError nat
  | EOF
  | ErrUnexpectedEOF
  | ErrWrongProtocolVersion
  | ErrEncryptedMessageWithNoSecureChannel
  | ErrInvalidOTRMessage
  | Panic

section \<open>The Go standard library\<close>

subsection \<open>math/big\<close>

text \<open>
  Go's \<^verbatim>\<open>*big.Int\<close> is an \<^typ>\<open>int option\<close> (\<open>None\<close> is the nil pointer). The
  methods the source calls: \<^verbatim>\<open>Bytes\<close> (big-endian magnitude without leading zero bytes,
  empty for 0), \<^verbatim>\<open>SetBytes\<close> (the value of a big-endian byte string), \<^verbatim>\<open>Cmp\<close>,
  \<^verbatim>\<open>ModInverse\<close> and \<^verbatim>\<open>Exp\<close>.
\<close>

function natBytes :: "nat \<Rightarrow> byte list" where
  "natBytes n = (if n = 0 then [] else natBytes (n div 256) @ [word_of_nat (n mod 256)])"
  by pat_completeness auto
termination
  by (relation "measure id") auto

declare natBytes.simps [simp del]

definition Bytes :: "int \<Rightarrow> byte list" where
  "Bytes v = natBytes (nat \<bar>v\<bar>)"

definition SetBytes :: "byte list \<Rightarrow> int" where
  "SetBytes bs = foldl (\<lambda>acc b. acc * 256 + uint b) 0 bs"

definition Cmp :: "int \<Rightarrow> int \<Rightarrow> int" where
  "Cmp a b = (if a < b then - 1 else if a = b then 0 else 1)"

text \<open>
  \<^verbatim>\<open>ModInverse(g, n)\<close> for \<open>n \<noteq> 0\<close>: the inverse of \<open>g\<close> modulo \<open>|n|\<close>, and nil
  when \<open>g\<close> and \<open>n\<close> are not relatively prime.
\<close>

definition ModInverse :: "int \<Rightarrow> int \<Rightarrow> int option" where
  "ModInverse g n =
     (let n = \<bar>n\<bar>;
          g = (if g < 0 then g mod n else g)
      in if gcd g n = 1 then Some (fst (bezw (nat g) (nat n)) mod n) else None)"

text \<open>
  \<^verbatim>\<open>new(big.Int).Exp(b, e, m)\<close>: \<open>b\<^sup>e mod |m|\<close> in the range \<open>0 \<le> z < |m|\<close>, and
  \<open>b\<^sup>e\<close> when \<open>m = 0\<close>. For a negative exponent the result is 1 when \<open>m = 0\<close>;
  otherwise the magnitude of the base is replaced by the modular inverse of \<open>b\<close>, the
  exponent by its absolute value, and the result is nil when there is no inverse. The
  sign is that of \<open>b\<close> for an odd exponent, and a negative result is brought into
  range by adding \<open>|m|\<close>.
\<close>

definition Exp :: "int \<Rightarrow> int \<Rightarrow> int \<Rightarrow> int option" where
  "Exp b e m =
     (if e < 0 \<and> m = 0 then Some 1
      else
        (case (if e < 0 then ModInverse b m else Some \<bar>b\<bar>) of
           None \<Rightarrow> None
         | Some base \<Rightarrow>
             let z = base ^ nat \<bar>e\<bar> mod \<bar>m\<bar> in
             if z \<noteq> 0 \<and> b < 0 \<and> odd e then Some (if m \<noteq> 0 then \<bar>m\<bar> - z else - z)
             else Some z))"

subsection \<open>crypto/sha256\<close>

text \<open>
  \<^verbatim>\<open>sha256.Sum256\<close> and \<^verbatim>\<open>sha256.New\<close> compute SHA-256 (FIPS 180-4): the message is
  padded to a multiple of 64 bytes, and each block runs 64 rounds over a sliding window of
  16 schedule words.
\<close>

definition rotr :: "nat \<Rightarrow> 32 word \<Rightarrow> 32 word" where
  "rotr n w = drop_bit n w OR push_bit (32 - n) w"

definition ssig0 :: "32 word \<Rightarrow> 32 word" where
  "ssig0 w = rotr 7 w XOR rotr 18 w XOR drop_bit 3 w"

definition ssig1 :: "32 word \<Rightarrow> 32 word" where
  "ssig1 w = rotr 17 w XOR rotr 19 w XOR drop_bit 10 w"

definition bsig0 :: "32 word \<Rightarrow> 32 word" where
  "bsig0 w = rotr 2 w XOR rotr 13 w XOR rotr 22 w"

definition bsig1 :: "32 word \<Rightarrow> 32 word" where
  "bsig1 w = rotr 6 w XOR rotr 11 w XOR rotr 25 w"

definition sha256_K :: "32 word list" where
  "sha256_K =
     [1116352408, 1899447441, 3049323471, 3921009573, 961987163, 1508970993, 2453635748,
      2870763221, 3624381080, 310598401, 607225278, 1426881987, 1925078388, 2162078206,
      2614888103, 3248222580, 3835390401, 4022224774, 264347078, 604807628, 770255983,
      1249150122, 1555081692, 1996064986, 2554220882, 2821834349, 2952996808, 3210313671,
      3336571891, 3584528711, 113926993, 338241895, 666307205, 773529912, 1294757372,
      1396182291, 1695183700, 1986661051, 2177026350, 2456956037, 2730485921, 2820302411,
      3259730800, 3345764771, 3516065817, 3600352804, 4094571909, 275423344, 430227734,
      506948616, 659060556, 883997877, 958139571, 1322822218, 1537002063, 1747873779,
      1955562222, 2024104815, 2227730452, 2361852424, 2428436474, 2756734187, 3204031479,
      3329325298]"

definition sha256_H0 :: "32 word list" where
  "sha256_H0 =
     [1779033703, 3144134277, 1013904242, 2773480762, 1359893119, 2600822924, 528734635,
      1541459225]"

definition u64Bytes :: "nat \<Rightarrow> byte list" where
  "u64Bytes n =
     [word_of_nat (n div 2 ^ 56), word_of_nat (n div 2 ^ 48), word_of_nat (n div 2 ^ 40),
      word_of_nat (n div 2 ^ 32), word_of_nat (n div 2 ^ 24), word_of_nat (n div 2 ^ 16),
      word_of_nat (n div 2 ^ 8), word_of_nat n]"

definition u32Bytes :: "32 word \<Rightarrow> byte list" where
  "u32Bytes w = [ucast (drop_bit 24 w), ucast (drop_bit 16 w), ucast (drop_bit 8 w), ucast w]"

definition sha256_pad :: "byte list \<Rightarrow> byte list" where
  "sha256_pad m =
     m @ [128] @ replicate ((119 - length m mod 64) mod 64) 0 @ u64Bytes (8 * length m)"

fun wordsOf :: "byte list \<Rightarrow> 32 word list" where
  "wordsOf (b0 # b1 # b2 # b3 # rest) =
     (push_bit 24 (ucast b0) OR push_bit 16 (ucast b1) OR push_bit 8 (ucast b2) OR ucast b3)
       # wordsOf rest"
| "wordsOf _ = []"

definition sha256_next :: "32 word list \<Rightarrow> 32 word" where
  "sha256_next w = ssig1 (w ! 14) + w ! 9 + ssig0 (w ! 1) + w ! 0"

definition sha256_round :: "32 word list \<Rightarrow> 32 word \<Rightarrow> 32 word \<Rightarrow> 32 word list" where
  "sha256_round s k w =
     (let a = s ! 0; b = s ! 1; c = s ! 2; d = s ! 3;
          e = s ! 4; f = s ! 5; g = s ! 6; h = s ! 7;
          t1 = h + bsig1 e + ((e AND f) XOR (NOT e AND g)) + k + w;
          t2 = bsig0 a + ((a AND b) XOR (a AND c) XOR (b AND c))
      in [t1 + t2, a, b, c, d + t1, e, f, g])"

fun sha256_rounds :: "32 word list \<Rightarrow> 32 word list \<Rightarrow> 32 word list \<Rightarrow> 32 word list" where
  "sha256_rounds [] w s = s"
| "sha256_rounds (k # ks) w s =
     sha256_rounds ks (tl w @ [sha256_next w]) (sha256_round s k (hd w))"

definition sha256_block :: "32 word list \<Rightarrow> byte list \<Rightarrow> 32 word list" where
  "sha256_block h blk = map2 (+) h (sha256_rounds sha256_K (wordsOf blk) h)"

function sha256_blocks :: "32 word list \<Rightarrow> byte list \<Rightarrow> 32 word list" where
  "sha256_blocks h m =
     (if length m < 64 then h else sha256_blocks (sha256_block h (take 64 m)) (drop 64 m))"
  by pat_completeness auto
termination
  by (relation "measure (\<lambda>(h, m). length m)") auto

declare sha256_blocks.simps [simp del]

definition sha256 :: "byte list \<Rightarrow> byte list" where
  "sha256 m = concat (map u32Bytes (sha256_blocks sha256_H0 (sha256_pad m)))"

subsection \<open>crypto/aes and the CTR mode of crypto/cipher\<close>

text \<open>
  \<^verbatim>\<open>aes.NewCipher\<close> accepts keys of 16, 24 and 32 bytes and fails with a
  \<^verbatim>\<open>KeySizeError\<close> otherwise; the cipher it returns is represented by its expanded key
  (FIPS 197). The S-box is given by rows: \<open>sboxRow hi\<close> is the row of the bytes whose
  high nibble is \<open>hi\<close>, indexed by the low nibble.
\<close>

definition sboxRow :: "nat \<Rightarrow> byte list" where
  "sboxRow hi =
     (if hi = 0 then [99, 124, 119, 123, 242, 107, 111, 197, 48, 1, 103, 43, 254, 215, 171, 118]
      else if hi = 1 then [202, 130, 201, 125, 250, 89, 71, 240, 173, 212, 162, 175, 156, 164, 114, 192]
      else if hi = 2 then [183, 253, 147, 38, 54, 63, 247, 204, 52, 165, 229, 241, 113, 216, 49, 21]
      else if hi = 3 then [4, 199, 35, 195, 24, 150, 5, 154, 7, 18, 128, 226, 235, 39, 178, 117]
      else if hi = 4 then [9, 131, 44, 26, 27, 110, 90, 160, 82, 59, 214, 179, 41, 227, 47, 132]
      else if hi = 5 then [83, 209, 0, 237, 32, 252, 177, 91, 106, 203, 190, 57, 74, 76, 88, 207]
      else if hi = 6 then [208, 239, 170, 251, 67, 77, 51, 133, 69, 249, 2, 127, 80, 60, 159, 168]
      else if hi = 7 then [81, 163, 64, 143, 146, 157, 56, 245, 188, 182, 218, 33, 16, 255, 243, 210]
      else if hi = 8 then [205, 12, 19, 236, 95, 151, 68, 23, 196, 167, 126, 61, 100, 93, 25, 115]
      else if hi = 9 then [96, 129, 79, 220, 34, 42, 144, 136, 70, 238, 184, 20, 222, 94, 11, 219]
      else if hi = 10 then [224, 50, 58, 10, 73, 6, 36, 92, 194, 211, 172, 98, 145, 149, 228, 121]
      else if hi = 11 then [231, 200, 55, 109, 141, 213, 78, 169, 108, 86, 244, 234, 101, 122, 174, 8]
      else if hi = 12 then [186, 120, 37, 46, 28, 166, 180, 198, 232, 221, 116, 31, 75, 189, 139, 138]
      else if hi = 13 then [112, 62, 181, 102, 72, 3, 246, 14, 97, 53, 87, 185, 134, 193, 29, 158]
      else if hi = 14 then [225, 248, 152, 17, 105, 217, 142, 148, 155, 30, 135, 233, 206, 85, 40, 223]
      else [140, 161, 137, 13, 191, 230, 66, 104, 65, 153, 45, 15, 176, 84, 187, 22])"

definition SubBytes :: "byte list \<Rightarrow> byte list" where
  "SubBytes s = map (\<lambda>b. sboxRow (unat (drop_bit 4 b)) ! unat (b AND 15)) s"

fun ShiftRows :: "byte list \<Rightarrow> byte list" where
  "ShiftRows [s0, s1, s2, s3, s4, s5, s6, s7, s8, s9, s10, s11, s12, s13, s14, s15] =
     [s0, s5, s10, s15, s4, s9, s14, s3, s8, s13, s2, s7, s12, s1, s6, s11]"
| "ShiftRows s = s"

definition xtime :: "byte \<Rightarrow> byte" where
  "xtime b = push_bit 1 b XOR (drop_bit 7 b * 27)"

fun MixColumns :: "byte list \<Rightarrow> byte list" where
  "MixColumns (a0 # a1 # a2 # a3 # rest) =
     [xtime a0 XOR (xtime a1 XOR a1) XOR a2 XOR a3,
      a0 XOR xtime a1 XOR (xtime a2 XOR a2) XOR a3,
      a0 XOR a1 XOR xtime a2 XOR (xtime a3 XOR a3),
      (xtime a0 XOR a0) XOR a1 XOR a2 XOR xtime a3] @ MixColumns rest"
| "MixColumns s = s"

definition AddRoundKey :: "byte list \<Rightarrow> byte list \<Rightarrow> byte list" where
  "AddRoundKey s k = map2 (XOR) s k"

definition Rcon :: "byte list" where
  "Rcon = [1, 2, 4, 8, 16, 32, 64, 128, 27, 54]"

text \<open>
  The key expansion: \<open>nk\<close> is the key length in words, \<open>n\<close> the number of words of the
  expanded key, \<open>i\<close> the index of the next word and \<open>w\<close> the bytes of the words so far.
\<close>

function expandKey :: "nat \<Rightarrow> nat \<Rightarrow> nat \<Rightarrow> byte list \<Rightarrow> byte list" where
  "expandKey nk n i w =
     (if n \<le> i \<or> nk = 0 then w
      else
        let prev = take 4 (drop (4 * (i - 1)) w);
            t = (if i mod nk = 0
                 then map2 (XOR) (SubBytes (rotate1 prev)) [Rcon ! (i div nk - 1), 0, 0, 0]
                 else if 6 < nk \<and> i mod nk = 4 then SubBytes prev
                 else prev)
        in expandKey nk n (Suc i) (w @ map2 (XOR) (take 4 (drop (4 * (i - nk)) w)) t))"
  by pat_completeness auto
termination
  by (relation "measure (\<lambda>(nk, n, i, w). n - i)") auto

declare expandKey.simps [simp del]

definition BlockSize :: nat where
  "BlockSize = 16"

definition NewCipher :: "byte list \<Rightarrow> error + byte list" where
  "NewCipher key =
     (if length key = 16 \<or> length key = 24 \<or> length key = 32
      then Inr (expandKey (length key div 4) (length key + 28) (length key div 4) key)
      else Inl (KeySizeError (length key)))"

text \<open>
  The rounds of one block encryption: \<open>s\<close> is the state and \<open>w\<close> the round keys still
  to be applied; the last round has no \<open>MixColumns\<close>.
\<close>

fun cipherRounds :: "byte list \<Rightarrow> byte list \<Rightarrow> byte list" where
  "cipherRounds s w =
     (if length w \<le> 16 then AddRoundKey (ShiftRows (SubBytes s)) w
      else cipherRounds (AddRoundKey (MixColumns (ShiftRows (SubBytes s))) (take 16 w))
             (drop 16 w))"

declare cipherRounds.simps [simp del]

definition encryptBlock :: "byte list \<Rightarrow> byte list \<Rightarrow> byte list" where
  "encryptBlock w blk = cipherRounds (AddRoundKey blk (take 16 w)) (drop 16 w)"

text \<open>
  \<^verbatim>\<open>cipher.NewCTR(block, iv)\<close> followed by \<^verbatim>\<open>XORKeyStream(dst, src)\<close>: the counter starts
  at \<open>iv\<close> and is incremented as a big-endian number after each block; the result is
  the content of \<open>dst[:len(src)]\<close>.
\<close>

fun incLE :: "byte list \<Rightarrow> byte list" where
  "incLE [] = []"
| "incLE (b # bs) = (if b + 1 = 0 then 0 # incLE bs else (b + 1) # bs)"

definition incCtr :: "byte list \<Rightarrow> byte list" where
  "incCtr ctr = rev (incLE (rev ctr))"

function XORKeyStream :: "byte list \<Rightarrow> byte list \<Rightarrow> byte list \<Rightarrow> byte list" where
  "XORKeyStream w ctr src =
     (if src = [] then []
      else map2 (XOR) (take 16 src) (encryptBlock w ctr)
             @ XORKeyStream w (incCtr ctr) (drop 16 src))"
  by pat_completeness auto
termination
  by (relation "measure (\<lambda>(w, ctr, src). length src)") auto

declare XORKeyStream.simps [simp del]

subsection \<open>io and crypto/subtle\<close>

text \<open>
  \<^verbatim>\<open>io.ReadFull(reader, buf)\<close> on a reader that will deliver the bytes \<open>rd\<close> and then
  report end of file: the reader afterwards, the buffer afterwards and the error.
  A short read fills the front of the buffer and leaves the rest as it was.
\<close>

definition ReadFull :: "byte list \<Rightarrow> byte list \<Rightarrow> byte list \<times> byte list \<times> error option" where
  "ReadFull rd buf =
     (if length buf \<le> length rd then (drop (length buf) rd, take (length buf) rd, None)
      else ([], rd @ drop (length rd) buf, Some (if rd = [] then EOF else ErrUnexpectedEOF)))"

definition ConstantTimeCompare :: "byte list \<Rightarrow> byte list \<Rightarrow> int" where
  "ConstantTimeCompare a b = (if a = b then 1 else 0)"

text \<open>
  The builtin \<^verbatim>\<open>copy(dst[:], src)\<close> into an array of \<open>n\<close> bytes: the first
  \<open>min n (len src)\<close> bytes are overwritten.
\<close>

definition copy :: "nat \<Rightarrow> byte list \<Rightarrow> byte list \<Rightarrow> byte list" where
  "copy n dst src = take n (src @ drop (length src) dst)"

section \<open>The wire codec and the group constants\<close>

text \<open>
  Modelled from the spec: the wire codec of section 4.1 (\<^verbatim>\<open>appendShort\<close>, \<^verbatim>\<open>appendWord\<close>,
  \<^verbatim>\<open>appendData\<close>, \<^verbatim>\<open>appendMPI\<close>, \<^verbatim>\<open>extractWord\<close>, \<^verbatim>\<open>extractData\<close>, \<^verbatim>\<open>extractMPI\<close>), which
  \<^verbatim>\<open>ake.go\<close> calls and whose source file is missing. SHORT is 2 bytes and WORD 4 bytes in
  network byte order; DATA is a WORD length followed by the raw bytes; an MPI is a WORD
  length \<open>n\<close> followed by \<open>n\<close> bytes of big-endian magnitude, without leading zeros
  except the single-byte value 0. The extractors take the buffer and a start index and
  return the index after the field with the field; on a buffer that is too short for
  the announced length they return \<open>None\<close> (where a Go slice expression panics).
\<close>

definition appendShort :: "byte list \<Rightarrow> 16 word \<Rightarrow> byte list" where
  "appendShort l v = l @ [ucast (drop_bit 8 v), ucast v]"

definition appendWord :: "byte list \<Rightarrow> 32 word \<Rightarrow> byte list" where
  "appendWord l v = l @ u32Bytes v"

definition appendData :: "byte list \<Rightarrow> byte list \<Rightarrow> byte list" where
  "appendData l d = appendWord l (word_of_nat (length d)) @ d"

definition appendMPI :: "byte list \<Rightarrow> int \<Rightarrow> byte list" where
  "appendMPI l v = appendData l (if v = 0 then [0] else Bytes v)"

definition extractShort :: "byte list \<Rightarrow> nat \<Rightarrow> (nat \<times> 16 word) option" where
  "extractShort d start =
     (if start + 2 \<le> length d
      then Some (start + 2, word_of_int (SetBytes (take 2 (drop start d))))
      else None)"

definition extractWord :: "byte list \<Rightarrow> nat \<Rightarrow> (nat \<times> 32 word) option" where
  "extractWord d start =
     (if start + 4 \<le> length d
      then Some (start + 4, word_of_int (SetBytes (take 4 (drop start d))))
      else None)"

definition extractData :: "byte list \<Rightarrow> nat \<Rightarrow> (nat \<times> byte list) option" where
  "extractData d start =
     (case extractWord d start of
        None \<Rightarrow> None
      | Some (i, n) \<Rightarrow>
          if i + unat n \<le> length d then Some (i + unat n, take (unat n) (drop i d))
          else None)"

definition extractMPI :: "byte list \<Rightarrow> nat \<Rightarrow> (nat \<times> int) option" where
  "extractMPI d start =
     (case extractData d start of
        None \<Rightarrow> None
      | Some (i, bs) \<Rightarrow> Some (i, SetBytes bs))"

text \<open>
  Modelled from the spec: the group constants and the comparison helpers \<^verbatim>\<open>lt\<close>,
  \<^verbatim>\<open>gt\<close>, \<^verbatim>\<open>eq\<close> used by \<^verbatim>\<open>processDHKey\<close>; their declarations are missing from the
  sources. The generator is \<open>g = 2\<close> and \<^verbatim>\<open>pMinusTwo\<close> is \<open>p - 2\<close> (sections 3 and 9).
  The 1536-bit modulus \<open>p\<close> itself is a parameter of every function that uses it.
\<close>

definition g1 :: int where
  "g1 = 2"

definition pMinusTwo :: "int \<Rightarrow> int" where
  "pMinusTwo p = p - 2"

definition lt :: "int \<Rightarrow> int \<Rightarrow> bool" where
  "lt a b = (Cmp a b = - 1)"

definition gt :: "int \<Rightarrow> int \<Rightarrow> bool" where
  "gt a b = (Cmp a b = 1)"

definition eq :: "int \<Rightarrow> int \<Rightarrow> bool" where
  "eq a b = (Cmp a b = 0)"

text \<open>
  Modelled from the spec: the protocol version behind the \<^verbatim>\<open>otrVersion\<close> interface, whose
  implementations are missing. The header carries the version number as a SHORT, and
  only version 3 has instance tags (section 4.1).
\<close>

datatype otrVersion = otrV2 | otrV3

definition versionNum :: "otrVersion \<Rightarrow> 16 word" where
  "versionNum v = (case v of otrV2 \<Rightarrow> 2 | otrV3 \<Rightarrow> 3)"

definition needInstanceTag :: "otrVersion \<Rightarrow> bool" where
  "needInstanceTag v = (case v of otrV2 \<Rightarrow> False | otrV3 \<Rightarrow> True)"

section \<open>The AKE context\<close>

text \<open>
  \<^verbatim>\<open>type akeKeys struct { c [16]byte; m1, m2 [32]byte }\<close> and \<^verbatim>\<open>type AKE struct\<close> of
  \<^verbatim>\<open>ake.go\<close>. The embedded \<^verbatim>\<open>akeContext\<close> is declared in a missing file; its fields are
  the ones \<^verbatim>\<open>ake.go\<close> reads and writes: \<open>Rand\<close>, \<open>gx\<close>, \<open>gy\<close>, \<open>x\<close>, \<open>y\<close>,
  \<open>encryptedGx\<close>, \<open>digest\<close>, the protocol version and the two instance tags. The field
  \<open>ourKey\<close> is used only by the signing half (\<^verbatim>\<open>generateVerifyData\<close>, \<^verbatim>\<open>calcXb\<close>), which
  is not modelled. Fixed-size byte arrays are byte lists. An injected random source
  \<open>Rand\<close> is the list of the bytes it will still deliver before it reports end of file;
  \<open>None\<close> is the nil reader. The process-wide \<^verbatim>\<open>crypto/rand.Reader\<close>, which \<^verbatim>\<open>ake.rand()\<close>
  falls back to, is carried in the context as the last field, since the model has no
  global state: \<open>cryptoRandReader k i\<close> is the \<open>i\<close>-th byte it will deliver next.
\<close>

record akeKeys =
  c :: "byte list"
  m1 :: "byte list"
  m2 :: "byte list"

record AKE =
  Rand :: "byte list option"
  gx :: "int option"
  gy :: "int option"
  x :: "int option"
  y :: "int option"
  encryptedGx :: "byte list"
  digest :: "byte list"
  otrVersion :: "otrVersion option"
  senderInstanceTag :: "32 word"
  receiverInstanceTag :: "32 word"
  r :: "byte list"
  revealKey :: akeKeys
  sigKey :: akeKeys
  ssid :: "byte list"
  myKeyID :: "32 word"
  cryptoRandReader :: "nat \<Rightarrow> byte"

text \<open>
  The zero value \<^verbatim>\<open>AKE{}\<close>: nil pointers, slices and reader, zeroed arrays. What
  \<^verbatim>\<open>crypto/rand.Reader\<close> delivers is no part of the value; \<open>zeroAKE\<close> pairs it with a
  fixed sample of bytes.
\<close>

definition zeroKeys :: akeKeys where
  "zeroKeys = \<lparr>c = replicate 16 0, m1 = replicate 32 0, m2 = replicate 32 0\<rparr>"

definition zeroAKE :: AKE where
  "zeroAKE = \<lparr>Rand = None, gx = None, gy = None, x = None, y = None, encryptedGx = [],
     digest = replicate 32 0, otrVersion = None, senderInstanceTag = 0,
     receiverInstanceTag = 0, r = replicate 16 0, revealKey = zeroKeys, sigKey = zeroKeys,
     ssid = replicate 8 0, myKeyID = 0,
     cryptoRandReader = (\<lambda>i. word_of_nat (167 * i + 13))\<rparr>"

definition msgTypeDHCommit :: byte where
  "msgTypeDHCommit = 2"

definition msgTypeDHKey :: byte where
  "msgTypeDHKey = 10"

definition msgTypeRevealSig :: byte where
  "msgTypeRevealSig = 17"

definition msgTypeSig :: byte where
  "msgTypeSig = 18"

section \<open>Sending a DH-Commit message\<close>

text \<open>
  Every method of \<^verbatim>\<open>*AKE\<close> returns its results together with the context after the
  call. \<open>readRand ake buf\<close> is \<^verbatim>\<open>io.ReadFull(ake.rand(), buf)\<close>: the buffer afterwards
  and the error, with the reader that \<^verbatim>\<open>ake.rand()\<close> chose advanced. Reading from
  \<^verbatim>\<open>crypto/rand.Reader\<close> does not fail.
\<close>

definition readRand :: "AKE \<Rightarrow> byte list \<Rightarrow> (byte list \<times> error option) \<times> AKE" where
  "readRand ake buf =
     (case Rand ake of
        Some rd \<Rightarrow>
          (case ReadFull rd buf of (rd, buf, e) \<Rightarrow> ((buf, e), ake\<lparr>Rand := Some rd\<rparr>))
      | None \<Rightarrow>
          ((map (cryptoRandReader ake) [0..<length buf], None),
           ake\<lparr>cryptoRandReader := (\<lambda>i. cryptoRandReader ake (i + length buf))\<rparr>))"

text \<open>\<^verbatim>\<open>generateRand\<close> reads 40 bytes.\<close>

definition generateRand :: "AKE \<Rightarrow> (error + int) \<times> AKE" where
  "generateRand ake =
     (case readRand ake (replicate 40 0) of
        ((randx, Some e), ake) \<Rightarrow> (Inl e, ake)
      | ((randx, None), ake) \<Rightarrow> (Inr (SetBytes randx), ake))"

text \<open>
  \<^verbatim>\<open>encryptGx\<close>: the error of \<^verbatim>\<open>io.ReadFull\<close> is assigned to \<open>err\<close> and overwritten by
  the next statement, \<^verbatim>\<open>aesCipher, err := aes.NewCipher(ake.r[:])\<close>, before anything reads
  it. \<^verbatim>\<open>ciphertext[:aes.BlockSize]\<close> panics when the MPI of \<open>gx\<close> is shorter than a block
  (the slice was made with that length and capacity).
\<close>

definition encryptGx :: "AKE \<Rightarrow> (error + byte list) \<times> AKE" where
  "encryptGx ake =
     (case readRand ake (r ake) of
        ((buf, _), ake) \<Rightarrow>
          let ake1 = ake\<lparr>r := buf\<rparr> in
          (case NewCipher (r ake1) of
             Inl e \<Rightarrow> (Inl e, ake1)
           | Inr aesCipher \<Rightarrow>
               (case gx ake1 of
                  None \<Rightarrow> (Inl Panic, ake1)
                | Some v \<Rightarrow>
                    let gxMPI = appendMPI [] v in
                    if length gxMPI < BlockSize then (Inl Panic, ake1)
                    else (Inr (XORKeyStream aesCipher (replicate BlockSize 0) gxMPI), ake1))))"

definition decrypt :: "byte list \<Rightarrow> byte list \<Rightarrow> error + byte list" where
  "decrypt key src =
     (case NewCipher key of
        Inl e \<Rightarrow> Inl (ErrCannotCreateAESCipher (length key))
      | Inr aesCipher \<Rightarrow> Inr (XORKeyStream aesCipher (replicate BlockSize 0) src))"

definition hashedGx :: "AKE \<Rightarrow> error + byte list" where
  "hashedGx ake = (case gx ake of None \<Rightarrow> Inl Panic | Some v \<Rightarrow> Inr (sha256 (Bytes v)))"

text \<open>
  \<^verbatim>\<open>h2(b, secbytes, h)\<close> resets the hash \<open>h\<close> before writing, so its result does not
  depend on what \<open>h\<close> held: it is the digest of \<open>b\<close> followed by \<open>secbytes\<close>.
\<close>

definition h2 :: "byte \<Rightarrow> byte list \<Rightarrow> byte list" where
  "h2 b secbytes = sha256 ([b] @ secbytes)"

definition calcAKEKeys :: "int \<Rightarrow> AKE \<Rightarrow> AKE" where
  "calcAKEKeys s ake =
     (let secbytes = appendMPI [] s;
          ake = ake\<lparr>ssid := copy 8 (ssid ake) (take 8 (h2 0 secbytes))\<rparr>;
          ake = ake\<lparr>revealKey := (revealKey ake)
                  \<lparr>c := copy 16 (c (revealKey ake)) (take 16 (h2 1 secbytes))\<rparr>\<rparr>;
          ake = ake\<lparr>sigKey := (sigKey ake)
                  \<lparr>c := copy 16 (c (sigKey ake)) (drop 16 (h2 1 secbytes))\<rparr>\<rparr>;
          ake = ake\<lparr>revealKey := (revealKey ake)
                  \<lparr>m1 := copy 32 (m1 (revealKey ake)) (h2 2 secbytes)\<rparr>\<rparr>;
          ake = ake\<lparr>revealKey := (revealKey ake)
                  \<lparr>m2 := copy 32 (m2 (revealKey ake)) (h2 3 secbytes)\<rparr>\<rparr>;
          ake = ake\<lparr>sigKey := (sigKey ake)
                  \<lparr>m1 := copy 32 (m1 (sigKey ake)) (h2 4 secbytes)\<rparr>\<rparr>
      in ake\<lparr>sigKey := (sigKey ake)
                  \<lparr>m2 := copy 32 (m2 (sigKey ake)) (h2 5 secbytes)\<rparr>\<rparr>)"

text \<open>
  \<^verbatim>\<open>calcDHSharedSecret\<close>: with \<open>xKnown\<close> false the operands are used unchecked, and
  \<^verbatim>\<open>Exp\<close> on a nil operand panics. The result of \<^verbatim>\<open>Exp\<close> is returned as it is, nil
  included.
\<close>

definition calcDHSharedSecret :: "int \<Rightarrow> AKE \<Rightarrow> bool \<Rightarrow> error + int option" where
  "calcDHSharedSecret p ake xKnown =
     (if xKnown then
        (case gy ake of
           None \<Rightarrow> Inl ErrMissingGy
         | Some b \<Rightarrow> (case x ake of None \<Rightarrow> Inl ErrMissingX | Some e \<Rightarrow> Inr (Exp b e p)))
      else
        (case gx ake of
           None \<Rightarrow> Inl Panic
         | Some b \<Rightarrow> (case y ake of None \<Rightarrow> Inl Panic | Some e \<Rightarrow> Inr (Exp b e p))))"

text \<open>
  \<^verbatim>\<open>dhCommitMessage\<close>: a panic inside \<^verbatim>\<open>encryptGx\<close> unwinds before
  \<^verbatim>\<open>ake.encryptedGx, err = ake.encryptGx()\<close> assigns anything; an error return assigns
  the nil slice.
\<close>

definition dhCommitMessage :: "int \<Rightarrow> AKE \<Rightarrow> (error + byte list) \<times> AKE" where
  "dhCommitMessage p ake =
     (let ake = ake\<lparr>myKeyID := 0\<rparr> in
      case generateRand ake of
        (Inl e, ake) \<Rightarrow> (Inl e, ake)
      | (Inr v, ake) \<Rightarrow>
          let ake = ake\<lparr>x := Some v\<rparr>;
              ake = ake\<lparr>gx := Exp g1 v p\<rparr>
          in
          (case encryptGx ake of
             (Inl e, ake) \<Rightarrow>
               if e = Panic then (Inl Panic, ake) else (Inl e, ake\<lparr>encryptedGx := []\<rparr>)
           | (Inr ct, ake) \<Rightarrow>
               let ake = ake\<lparr>encryptedGx := ct\<rparr> in
               (case otrVersion ake of
                  None \<Rightarrow> (Inl Panic, ake)
                | Some ver \<Rightarrow>
                    let out = appendShort [] (versionNum ver);
                        out = out @ [msgTypeDHCommit];
                        out = (if needInstanceTag ver
                               then appendWord (appendWord out (senderInstanceTag ake))
                                      (receiverInstanceTag ake)
                               else out);
                        out = appendData out (encryptedGx ake)
                    in
                    (case hashedGx ake of
                       Inl e \<Rightarrow> (Inl e, ake)
                     | Inr h \<Rightarrow> (Inr (appendData out h), ake)))))"

text \<open>
  The header that \<^verbatim>\<open>dhCommitMessage\<close> writes before the two DATA fields: version, message
  type and, for version 3, the two instance tags.
\<close>

definition dhCommitHeader :: "otrVersion \<Rightarrow> AKE \<Rightarrow> byte list" where
  "dhCommitHeader ver ake =
     appendShort [] (versionNum ver) @ [msgTypeDHCommit] @
     (if needInstanceTag ver
      then u32Bytes (senderInstanceTag ake) @ u32Bytes (receiverInstanceTag ake)
      else [])"

section \<open>Receiving DH-Key and Reveal-Signature messages\<close>

definition processDHKey :: "int \<Rightarrow> AKE \<Rightarrow> byte list \<Rightarrow> (bool \<times> error option) \<times> AKE" where
  "processDHKey p ake inp =
     (case extractMPI inp 0 of
        None \<Rightarrow> ((False, Some Panic), ake)
      | Some (_, v) \<Rightarrow>
          if lt v g1 \<or> gt v (pMinusTwo p) then ((False, Some ErrDHValueOutOfRange), ake)
          else (case gy ake of
                  Some old \<Rightarrow> ((eq old v, None), ake)
                | None \<Rightarrow> ((False, None), ake\<lparr>gy := Some v\<rparr>)))"

definition checkDecryptedGx :: "int \<Rightarrow> AKE \<Rightarrow> byte list \<Rightarrow> error option \<times> AKE" where
  "checkDecryptedGx p ake decryptedGx =
     (let dgst = sha256 decryptedGx in
      if length dgst \<noteq> length (digest ake) \<or> ConstantTimeCompare dgst (digest ake) = 0
      then (Some ErrBadCommitMAC, ake)
      else
        (case extractMPI decryptedGx 0 of
           None \<Rightarrow> (Some Panic, ake)
         | Some (index, v) \<Rightarrow>
             let ake = ake\<lparr>gx := Some v\<rparr> in
             if index < length (encryptedGx ake) then (Some ErrGxCorrupt, ake)
             else if Cmp v g1 < 0 \<or> 0 < Cmp v (pMinusTwo p)
             then (Some ErrDHValueOutOfRange, ake)
             else (None, ake)))"

text \<open>\<^verbatim>\<open>processEncryptedSig\<close> has the body \<^verbatim>\<open>return nil\<close>.\<close>

definition processEncryptedSig ::
  "AKE \<Rightarrow> byte list \<Rightarrow> byte list \<Rightarrow> akeKeys \<Rightarrow> bool \<Rightarrow> error option" where
  "processEncryptedSig ake encryptedSig theirMAC key xFirst = None"

text \<open>
  \<^verbatim>\<open>processRevealSig\<close>: \<^verbatim>\<open>decryptedGx := ake.encryptedGx\<close> shares the backing array, so
  \<^verbatim>\<open>decrypt\<close> overwrites \<^verbatim>\<open>ake.encryptedGx\<close> with the plaintext. The error result of
  \<^verbatim>\<open>calcDHSharedSecret(false)\<close> is discarded; it is always nil when the call returns.
  On a nil shared secret the MPI encoding inside \<^verbatim>\<open>calcAKEKeys\<close> dereferences nil.
\<close>

definition processRevealSig :: "int \<Rightarrow> AKE \<Rightarrow> byte list \<Rightarrow> error option \<times> AKE" where
  "processRevealSig p ake inp =
     (case extractData inp 0 of
        None \<Rightarrow> (Some Panic, ake)
      | Some (index, key) \<Rightarrow>
          (case extractData inp index of
             None \<Rightarrow> (Some Panic, ake)
           | Some (index, encryptedSig) \<Rightarrow>
               let theirMAC = drop index inp in
               if length theirMAC \<noteq> 20 then (Some ErrCorruptRevealSig, ake)
               else
                 (case decrypt key (encryptedGx ake) of
                    Inl e \<Rightarrow> (Some e, ake)
                  | Inr decryptedGx \<Rightarrow>
                      let ake = ake\<lparr>encryptedGx := decryptedGx\<rparr> in
                      (case checkDecryptedGx p ake decryptedGx of
                         (Some e, ake) \<Rightarrow> (Some e, ake)
                       | (None, ake) \<Rightarrow>
                           (case calcDHSharedSecret p ake False of
                              Inl e \<Rightarrow> (Some e, ake)
                            | Inr None \<Rightarrow> (Some Panic, ake)
                            | Inr (Some s) \<Rightarrow>
                                let ake = calcAKEKeys s ake in
                                (case processEncryptedSig ake encryptedSig theirMAC
                                        (revealKey ake) True of
                                   Some e \<Rightarrow> (Some (ErrInRevealSig e), ake)
                                 | None \<Rightarrow> (None, ake)))))))"

section \<open>The conversation dispatcher\<close>

text \<open>
  Modelled from the spec: the conversation and its entry point (\<^verbatim>\<open>Receive\<close>, and
  \<^verbatim>\<open>receive\<close>, which returns no plaintext), of which the sources hold only the tests and
  the \<^verbatim>\<open>compat\<close> wrapper. From sections 3, 4.1, 4.2, 4.5, 4.6, 7 and 8 of the spec:
  \<^item> a conversation holds its version, policies, message-state, AKE sub-state, SMP
    sub-state and AKE context;
  \<^item> a query message is \<^verbatim>\<open>?OTR?\<close>, \<^verbatim>\<open>?OTRv<digits>?\<close> or \<^verbatim>\<open>?OTR?v<digits>\<close>; it advertises
    version 1 (the bare \<^verbatim>\<open>?\<close>) and the versions named by the digits; the highest
    advertised version that the policies allow is selected, and if there is none no AKE
    is initiated; otherwise a DH-Commit message is sent and the AKE sub-state becomes
    \<open>awaitingDHKey\<close>; a failing random source is fatal for the call;
  \<^item> any other input starts with the header \<open>SHORT version || BYTE type\<close>; a version
    that the policies do not allow is rejected with \<^verbatim>\<open>errWrongProtocolVersion\<close>, before
    the type is read;
  \<^item> a data message (type 3) outside the message-state \<open>encrypted\<close> yields
    \<^verbatim>\<open>errEncryptedMessageWithNoSecureChannel\<close>, the reply is the serialized SMP abort
    TLV (type 6, no value; a TLV is \<open>SHORT type || SHORT length || value\<close>), and the
    SMP sub-state is reset to \<open>expect1\<close>;
  \<^item> what the dispatcher does with the AKE messages and with a data message of an
    encrypted session is the parameter \<open>next\<close>: their handlers are not in the sources.
\<close>

datatype msgState = plainText | encrypted | finished

datatype authState =
    authStateNone
  | authStateAwaitingDHCommit
  | authStateAwaitingDHKey
  | authStateAwaitingRevealSig
  | authStateAwaitingSig

datatype smpState = smpStateExpect1 | smpStateExpect2 | smpStateExpect3 | smpStateExpect4

datatype policy =
    allowV2
  | allowV3
  | requireEncryption
  | sendWhitespaceTag
  | whitespaceStartsAKE
  | errorStartsAKE

record tlv =
  tlvType :: "16 word"
  tlvLength :: "16 word"
  tlvValue :: "byte list"

definition serialize :: "tlv \<Rightarrow> byte list" where
  "serialize t = appendShort (appendShort [] (tlvType t)) (tlvLength t) @ tlvValue t"

definition smpMessageAbort :: tlv where
  "smpMessageAbort = \<lparr>tlvType = 6, tlvLength = 0, tlvValue = []\<rparr>"

definition msgTypeData :: byte where
  "msgTypeData = 3"

record conversation =
  version :: "otrVersion option"
  policies :: "policy set"
  msgState :: msgState
  akeState :: authState
  smpState :: smpState
  ake :: AKE

text \<open>The query prefix \<^verbatim>\<open>?OTR\<close> is the bytes 63, 79, 84, 82; \<^verbatim>\<open>v\<close> is 118.\<close>

definition versionDigits :: "byte list \<Rightarrow> nat list" where
  "versionDigits bs =
     map (\<lambda>b. unat b - 48) (filter (\<lambda>b. 48 \<le> b \<and> b \<le> 57) (takeWhile (\<lambda>b. b \<noteq> 63) bs))"

definition isQueryMessage :: "byte list \<Rightarrow> bool" where
  "isQueryMessage msg = (take 5 msg = [63, 79, 84, 82, 63] \<or> take 5 msg = [63, 79, 84, 82, 118])"

definition parseOTRQueryMessage :: "byte list \<Rightarrow> nat list" where
  "parseOTRQueryMessage msg =
     (if take 4 msg = [63, 79, 84, 82] then
        (let rest = drop 4 msg in
         if take 2 rest = [63, 118] then 1 # versionDigits (drop 2 rest)
         else if take 1 rest = [63] then [1]
         else if take 1 rest = [118] then versionDigits (drop 1 rest)
         else [])
      else [])"

definition selectVersion :: "policy set \<Rightarrow> nat list \<Rightarrow> otrVersion option" where
  "selectVersion pol versions =
     (if 3 \<in> set versions \<and> allowV3 \<in> pol then Some otrV3
      else if 2 \<in> set versions \<and> allowV2 \<in> pol then Some otrV2
      else None)"

definition versionAllowed :: "policy set \<Rightarrow> 16 word \<Rightarrow> bool" where
  "versionAllowed pol v = ((v = 2 \<and> allowV2 \<in> pol) \<or> (v = 3 \<and> allowV3 \<in> pol))"

type_synonym received = "(byte list \<times> byte list \<times> error option) \<times> conversation"

definition receiveQueryMessage :: "int \<Rightarrow> conversation \<Rightarrow> byte list \<Rightarrow> received" where
  "receiveQueryMessage p cv msg =
     (case selectVersion (policies cv) (parseOTRQueryMessage msg) of
        None \<Rightarrow> (([], [], None), cv)
      | Some ver \<Rightarrow>
          let cv = cv\<lparr>version := Some ver, ake := (ake cv)\<lparr>otrVersion := Some ver\<rparr>\<rparr> in
          (case dhCommitMessage p (ake cv) of
             (Inl e, k) \<Rightarrow> (([], [], Some e), cv\<lparr>ake := k\<rparr>)
           | (Inr out, k) \<Rightarrow>
               (([], out, None), cv\<lparr>ake := k, akeState := authStateAwaitingDHKey\<rparr>)))"

definition Receive ::
  "int \<Rightarrow> (conversation \<Rightarrow> byte \<Rightarrow> byte list \<Rightarrow> received) \<Rightarrow> conversation \<Rightarrow> byte list
     \<Rightarrow> received" where
  "Receive p next cv msg =
     (if isQueryMessage msg then receiveQueryMessage p cv msg
      else
        (case extractShort msg 0 of
           None \<Rightarrow> (([], [], Some ErrInvalidOTRMessage), cv)
         | Some (i, v) \<Rightarrow>
             if \<not> versionAllowed (policies cv) v
             then (([], [], Some ErrWrongProtocolVersion), cv)
             else if length msg \<le> i then (([], [], Some ErrInvalidOTRMessage), cv)
             else if msg ! i = msgTypeData \<and> msgState cv \<noteq> encrypted
             then (([], serialize smpMessageAbort, Some ErrEncryptedMessageWithNoSecureChannel),
                   cv\<lparr>smpState := smpStateExpect1\<rparr>)
             else next cv (msg ! i) msg))"

definition receive ::
  "int \<Rightarrow> (conversation \<Rightarrow> byte \<Rightarrow> byte list \<Rightarrow> received) \<Rightarrow> conversation \<Rightarrow> byte list
     \<Rightarrow> (byte list \<times> error option) \<times> conversation" where
  "receive p next cv msg =
     (case Receive p next cv msg of ((plain, toSend, err), cv) \<Rightarrow> ((toSend, err), cv))"

definition newConversation :: "otrVersion option \<Rightarrow> byte list \<Rightarrow> conversation" where
  "newConversation v rnd =
     \<lparr>version = v, policies = {}, msgState = plainText, akeState = authStateNone,
      smpState = smpStateExpect1, ake = zeroAKE\<lparr>Rand := Some rnd, otrVersion := v\<rparr>\<rparr>"

section \<open>Concrete inputs\<close>

text \<open>
  Inputs for the closed theorems.
  \<^item> The modulus is the Mersenne prime \<open>2\<^sup>1\<^sup>2\<^sup>7 - 1\<close>.
  \<^item> Three random sources: \<open>rand56\<close> delivers the exponent 100 and sixteen bytes for
    \<open>r\<close>; \<open>rand40\<close> is exhausted after the 40 bytes of the exponent; \<open>zeros56\<close>
    delivers 56 zero bytes, so that \<open>x = 0\<close> and \<open>gx = 1\<close>.
  \<^item> \<open>gx100\<close> is \<open>2\<^sup>1\<^sup>0\<^sup>0\<close>, the \<open>gx\<close> of the exponent 100.
  \<^item> \<open>queryV3\<close> is the query message \<^verbatim>\<open>?OTRv3?\<close>; \<open>noHandler\<close> stands for the handlers
    that the modelled dispatcher passes other messages to.
  \<^item> \<open>bob\<close> has the policies of the spec's first scenario, \<open>alice\<close> those of the
    second; \<open>bobZeros\<close> is \<open>bob\<close> with the random source \<open>zeros56\<close>.
  \<^item> \<open>aliceAKE\<close> and \<open>aliceAKE40\<close> are version-3 contexts about to send a DH-Commit,
    with the random sources \<open>rand56\<close> and \<open>rand40\<close>.
  \<^item> \<open>bobAKE\<close> is a context that has received a DH-Commit for \<open>gx = 32\<close> encrypted
    under the all-zero key \<open>zeroKey\<close> (\<open>encryptedGx\<close> is the AES-CTR encryption of the MPI
    00 00 00 01 20, \<open>digest\<close> its SHA-256) and has answered with \<open>gy = 2\<^sup>3\<close>;
    \<open>bobAKECorrupt\<close> differs in the last byte of \<open>encryptedGx\<close>, and in
    \<open>bobAKETrailing\<close> the committed plaintext is the MPI followed by a zero byte.
  \<^item> \<open>revealSigBody key sig mac\<close> is the body of a Reveal-Signature message as
    \<^verbatim>\<open>revealSigMessage\<close> lays it out after the header: \<open>DATA(r)\<close>, the encrypted
    signature as DATA, and the 20 bytes of the MAC.
\<close>

definition p127 :: int where
  "p127 = 170141183460469231731687303715884105727"

definition rand40 :: "byte list" where
  "rand40 =
     [0, 0, 0, 0, 0, 0, 0, 0, 0, 0, 0, 0, 0, 0, 0, 0, 0, 0, 0, 0,
      0, 0, 0, 0, 0, 0, 0, 0, 0, 0, 0, 0, 0, 0, 0, 0, 0, 0, 0, 100]"

definition rand56 :: "byte list" where
  "rand56 = rand40 @ [0, 1, 2, 3, 4, 5, 6, 7, 8, 9, 10, 11, 12, 13, 14, 15]"

definition zeros56 :: "byte list" where
  "zeros56 =
     [0, 0, 0, 0, 0, 0, 0, 0, 0, 0, 0, 0, 0, 0, 0, 0, 0, 0, 0, 0,
      0, 0, 0, 0, 0, 0, 0, 0, 0, 0, 0, 0, 0, 0, 0, 0, 0, 0, 0, 0,
      0, 0, 0, 0, 0, 0, 0, 0, 0, 0, 0, 0, 0, 0, 0, 0]"

definition gx100 :: int where
  "gx100 = 1267650600228229401496703205376"

definition queryV3 :: "byte list" where
  "queryV3 = [63, 79, 84, 82, 118, 51, 63]"

definition noHandler :: "conversation \<Rightarrow> byte \<Rightarrow> byte list \<Rightarrow> received" where
  "noHandler cv t msg = (([], [], None), cv)"

definition bob :: conversation where
  "bob = (newConversation None rand56)\<lparr>policies := {allowV2, allowV3}\<rparr>"

definition alice :: conversation where
  "alice = (newConversation (Some otrV3) rand56)\<lparr>policies := {allowV3}\<rparr>"

definition bobZeros :: conversation where
  "bobZeros = (newConversation None zeros56)\<lparr>policies := {allowV2, allowV3}\<rparr>"

definition aliceAKE :: AKE where
  "aliceAKE = zeroAKE\<lparr>Rand := Some rand56, otrVersion := Some otrV3\<rparr>"

definition aliceAKE40 :: AKE where
  "aliceAKE40 = zeroAKE\<lparr>Rand := Some rand40, otrVersion := Some otrV3\<rparr>"

definition zeroKey :: "byte list" where
  "zeroKey = [0, 0, 0, 0, 0, 0, 0, 0, 0, 0, 0, 0, 0, 0, 0, 0]"

definition bobAKE :: AKE where
  "bobAKE = zeroAKE\<lparr>y := Some 3, gy := Some 8, otrVersion := Some otrV3,
     encryptedGx := [102, 233, 75, 213, 207],
     digest := [227, 14, 197, 211, 165, 20, 128, 100, 178, 133, 186, 94, 164, 78, 208, 183,
                85, 122, 173, 3, 198, 140, 229, 63, 29, 29, 20, 219, 140, 179, 229, 178]\<rparr>"

definition bobAKECorrupt :: AKE where
  "bobAKECorrupt = bobAKE\<lparr>encryptedGx := [102, 233, 75, 213, 206]\<rparr>"

definition bobAKETrailing :: AKE where
  "bobAKETrailing = bobAKE\<lparr>encryptedGx := [102, 233, 75, 213, 207, 138],
     digest := sha256 [0, 0, 0, 1, 32, 0]\<rparr>"

definition revealSigBody :: "byte list \<Rightarrow> byte list \<Rightarrow> byte list \<Rightarrow> byte list" where
  "revealSigBody key sig mac = appendData (appendData [] key) sig @ mac"

definition mac00 :: "byte list" where
  "mac00 = [0, 0, 0, 0, 0, 0, 0, 0, 0, 0, 0, 0, 0, 0, 0, 0, 0, 0, 0, 0]"

definition mac255 :: "byte list" where
  "mac255 =
     [255, 255, 255, 255, 255, 255, 255, 255, 255, 255, 255, 255, 255, 255, 255, 255, 255,
      255, 255, 255]"

section \<open>Properties\<close>

lemma cmp_simps:
  "lt a b \<longleftrightarrow> a < b" "gt a b \<longleftrightarrow> b < a" "eq a b \<longleftrightarrow> a = b"
  by (auto simp: lt_def gt_def eq_def Cmp_def)

text \<open>
  Claim C10. \<^verbatim>\<open>processDHKey\<close> keeps only the first \<open>gy\<close>: on a DH-Key message that
  carries an in-range value \<open>v\<close>, a context that already stores a value \<open>old\<close> is
  returned unchanged, with no error and \<open>isSame\<close> true exactly when \<open>v = old\<close>; a
  context that stores none records \<open>v\<close>. Whatever the (parseable) message, a stored
  value is never replaced.
\<close>

theorem processDHKey_keeps_first_gy:
  "extractMPI inp 0 = Some (i, v) \<Longrightarrow>
   (gy k = Some old \<longrightarrow> gy (snd (processDHKey p k inp)) = Some old) \<and>
   (g1 \<le> v \<and> v \<le> pMinusTwo p \<longrightarrow>
      (gy k = Some old \<longrightarrow> processDHKey p k inp = ((old = v, None), k)) \<and>
      (gy k = None \<longrightarrow> processDHKey p k inp = ((False, None), k\<lparr>gy := Some v\<rparr>)))"
  by (auto simp: processDHKey_def cmp_simps)

lemma extractMPI_5: "extractMPI [0, 0, 0, 1, 5] 0 = Some (5, 5)"
  by (simp add: extractMPI_def extractData_def extractWord_def SetBytes_def)

theorem processDHKey_keeps_first_gy_witness:
  "extractMPI [0, 0, 0, 1, 5] 0 = Some (5, 5) \<and> g1 \<le> 5 \<and> 5 \<le> pMinusTwo 23 \<and>
   gy (snd (processDHKey 23 (zeroAKE\<lparr>gy := Some 7\<rparr>) [0, 0, 0, 1, 5])) = Some 7 \<and>
   processDHKey 23 (zeroAKE\<lparr>gy := Some 7\<rparr>) [0, 0, 0, 1, 5]
     = ((False, None), zeroAKE\<lparr>gy := Some 7\<rparr>) \<and>
   processDHKey 23 (zeroAKE\<lparr>gy := Some 5\<rparr>) [0, 0, 0, 1, 5]
     = ((True, None), zeroAKE\<lparr>gy := Some 5\<rparr>) \<and>
   processDHKey 23 zeroAKE [0, 0, 0, 1, 5] = ((False, None), zeroAKE\<lparr>gy := Some 5\<rparr>)"
  using processDHKey_keeps_first_gy [OF extractMPI_5, of "zeroAKE\<lparr>gy := Some 7\<rparr>" 7 23]
    processDHKey_keeps_first_gy [OF extractMPI_5, of "zeroAKE\<lparr>gy := Some 5\<rparr>" 5 23]
    processDHKey_keeps_first_gy [OF extractMPI_5, of zeroAKE 0 23]
  by (simp add: extractMPI_5 g1_def pMinusTwo_def zeroAKE_def)

subsection \<open>The digest has 32 bytes\<close>

lemma length_sha256_round: "length (sha256_round s k w) = 8"
  by (simp add: sha256_round_def Let_def)

lemma length_sha256_rounds:
  "ks \<noteq> [] \<Longrightarrow> length (sha256_rounds ks w s) = 8"
proof (induction ks arbitrary: w s)
  case Nil
  then show ?case by simp
next
  case (Cons k ks)
  show ?case
  proof (cases ks)
    case Nil
    then show ?thesis by (simp add: length_sha256_round)
  next
    case (Cons k' ks')
    then show ?thesis using Cons.IH by simp
  qed
qed

lemma sha256_K_nonempty: "sha256_K \<noteq> []"
  by (simp add: sha256_K_def)

lemma length_sha256_block: "length h = 8 \<Longrightarrow> length (sha256_block h blk) = 8"
  by (simp add: sha256_block_def length_sha256_rounds [OF sha256_K_nonempty])

lemma length_sha256_blocks: "length h = 8 \<Longrightarrow> length (sha256_blocks h m) = 8"
proof (induction h m rule: sha256_blocks.induct)
  case (1 h m)
  then show ?case
    by (subst sha256_blocks.simps) (simp add: length_sha256_block)
qed

lemma length_concat_u32Bytes: "length (concat (map u32Bytes ws)) = 4 * length ws"
  by (induction ws) (simp_all add: u32Bytes_def)

lemma length_sha256: "length (sha256 m) = 32"
  by (simp add: sha256_def length_concat_u32Bytes length_sha256_blocks sha256_H0_def)

subsection \<open>Key derivation\<close>

lemma copy_full: "n \<le> length src \<Longrightarrow> copy n dst src = take n src"
  by (simp add: copy_def)

text \<open>
  Claim C4. For every shared secret \<open>s\<close> and every context, with
  \<open>secbytes = MPI(s)\<close>, \<^verbatim>\<open>calcAKEKeys\<close> sets \<open>ssid\<close> to the first 8 bytes of
  \<open>SHA-256(0x00 || secbytes)\<close>, \<open>revealKey.c\<close> to the first 16 and \<open>sigKey.c\<close> to the
  last 16 bytes of \<open>SHA-256(0x01 || secbytes)\<close>, and \<open>revealKey.m1\<close>, \<open>revealKey.m2\<close>,
  \<open>sigKey.m1\<close>, \<open>sigKey.m2\<close> to the digests of \<open>secbytes\<close> prefixed with 0x02, 0x03,
  0x04 and 0x05.
\<close>

theorem calcAKEKeys_derivation:
  "ssid (calcAKEKeys s k) = take 8 (sha256 ([0] @ appendMPI [] s)) \<and>
   c (revealKey (calcAKEKeys s k)) = take 16 (sha256 ([1] @ appendMPI [] s)) \<and>
   c (sigKey (calcAKEKeys s k)) = drop 16 (sha256 ([1] @ appendMPI [] s)) \<and>
   m1 (revealKey (calcAKEKeys s k)) = sha256 ([2] @ appendMPI [] s) \<and>
   m2 (revealKey (calcAKEKeys s k)) = sha256 ([3] @ appendMPI [] s) \<and>
   m1 (sigKey (calcAKEKeys s k)) = sha256 ([4] @ appendMPI [] s) \<and>
   m2 (sigKey (calcAKEKeys s k)) = sha256 ([5] @ appendMPI [] s)"
  by (simp add: calcAKEKeys_def Let_def h2_def copy_full length_sha256 cong: let_weak_cong)

subsection \<open>The range check on received DH values\<close>

lemma processDHKey_range:
  assumes "extractMPI inp 0 = Some (i, v)"
  shows "snd (fst (processDHKey p k inp)) =
           (if v < 2 \<or> p - 2 < v then Some ErrDHValueOutOfRange else None)"
  using assms by (auto simp: processDHKey_def cmp_simps g1_def pMinusTwo_def split: option.splits)

lemma checkDecryptedGx_range:
  assumes "sha256 d = digest k" and "extractMPI d 0 = Some (j, w)"
    and "length (encryptedGx k) \<le> j"
  shows "fst (checkDecryptedGx p k d) =
           (if w < 2 \<or> p - 2 < w then Some ErrDHValueOutOfRange else None)"
  using assms
  by (auto simp: checkDecryptedGx_def Let_def ConstantTimeCompare_def Cmp_def g1_def
      pMinusTwo_def)

text \<open>
  Claim C2. A received DH public value equal to 0, 1 or \<open>p - 1\<close> is rejected with the
  DH-value-out-of-range error, by \<^verbatim>\<open>processDHKey\<close> for the value of a DH-Key message and by
  \<^verbatim>\<open>checkDecryptedGx\<close> for the \<open>gx\<close> recovered from the commitment (the decrypted
  bytes match the committed digest and hold nothing after the MPI); every value
  strictly between 1 and \<open>p - 1\<close> passes the range check.
\<close>

theorem dh_value_range_check:
  "(extractMPI inp 0 = Some (i, v) \<longrightarrow>
      ((v = 0 \<or> v = 1 \<or> v = p - 1) \<longrightarrow>
         snd (fst (processDHKey p k inp)) = Some ErrDHValueOutOfRange) \<and>
      (1 < v \<and> v < p - 1 \<longrightarrow> snd (fst (processDHKey p k inp)) = None)) \<and>
   (sha256 d = digest k' \<and> extractMPI d 0 = Some (j, w) \<and> length (encryptedGx k') \<le> j \<longrightarrow>
      ((w = 0 \<or> w = 1 \<or> w = p - 1) \<longrightarrow>
         fst (checkDecryptedGx p k' d) = Some ErrDHValueOutOfRange) \<and>
      (1 < w \<and> w < p - 1 \<longrightarrow> fst (checkDecryptedGx p k' d) = None))"
  by (auto simp: processDHKey_range checkDecryptedGx_range)

lemma extractMPI_byte:
  "extractMPI [0, 0, 0, 1, b] 0 = Some (5, uint b)"
  by (simp add: extractMPI_def extractData_def extractWord_def SetBytes_def)

theorem dh_value_range_check_witness:
  "snd (fst (processDHKey 23 zeroAKE [0, 0, 0, 1, 0])) = Some ErrDHValueOutOfRange \<and>
   snd (fst (processDHKey 23 zeroAKE [0, 0, 0, 1, 1])) = Some ErrDHValueOutOfRange \<and>
   snd (fst (processDHKey 23 zeroAKE [0, 0, 0, 1, 22])) = Some ErrDHValueOutOfRange \<and>
   snd (fst (processDHKey 23 zeroAKE [0, 0, 0, 1, 2])) = None \<and>
   snd (fst (processDHKey 23 zeroAKE [0, 0, 0, 1, 21])) = None \<and>
   fst (checkDecryptedGx 23
          (zeroAKE\<lparr>encryptedGx := [0, 0, 0, 1, 0], digest := sha256 [0, 0, 0, 1, 0]\<rparr>)
          [0, 0, 0, 1, 0]) = Some ErrDHValueOutOfRange \<and>
   fst (checkDecryptedGx 23
          (zeroAKE\<lparr>encryptedGx := [0, 0, 0, 1, 1], digest := sha256 [0, 0, 0, 1, 1]\<rparr>)
          [0, 0, 0, 1, 1]) = Some ErrDHValueOutOfRange \<and>
   fst (checkDecryptedGx 23
          (zeroAKE\<lparr>encryptedGx := [0, 0, 0, 1, 22], digest := sha256 [0, 0, 0, 1, 22]\<rparr>)
          [0, 0, 0, 1, 22]) = Some ErrDHValueOutOfRange \<and>
   fst (checkDecryptedGx 23
          (zeroAKE\<lparr>encryptedGx := [0, 0, 0, 1, 5], digest := sha256 [0, 0, 0, 1, 5]\<rparr>)
          [0, 0, 0, 1, 5]) = None"
  using dh_value_range_check [of "[0, 0, 0, 1, 0]" 5 0 23 zeroAKE "[0, 0, 0, 1, 0]"
      "zeroAKE\<lparr>encryptedGx := [0, 0, 0, 1, 0], digest := sha256 [0, 0, 0, 1, 0]\<rparr>" 5 0]
    dh_value_range_check [of "[0, 0, 0, 1, 1]" 5 1 23 zeroAKE "[0, 0, 0, 1, 1]"
      "zeroAKE\<lparr>encryptedGx := [0, 0, 0, 1, 1], digest := sha256 [0, 0, 0, 1, 1]\<rparr>" 5 1]
    dh_value_range_check [of "[0, 0, 0, 1, 22]" 5 22 23 zeroAKE "[0, 0, 0, 1, 22]"
      "zeroAKE\<lparr>encryptedGx := [0, 0, 0, 1, 22], digest := sha256 [0, 0, 0, 1, 22]\<rparr>" 5 22]
    dh_value_range_check [of "[0, 0, 0, 1, 2]" 5 2 23 zeroAKE "[0, 0, 0, 1, 5]"
      "zeroAKE\<lparr>encryptedGx := [0, 0, 0, 1, 5], digest := sha256 [0, 0, 0, 1, 5]\<rparr>" 5 5]
    dh_value_range_check [of "[0, 0, 0, 1, 21]" 5 21 23 zeroAKE "[0, 0, 0, 1, 5]"
      "zeroAKE\<lparr>encryptedGx := [0, 0, 0, 1, 5], digest := sha256 [0, 0, 0, 1, 5]\<rparr>" 5 5]
  by (simp add: extractMPI_byte)

subsection \<open>Evaluating \<^verbatim>\<open>dhCommitMessage\<close>\<close>

lemma foldl_SetBytes_nonneg:
  "0 \<le> a \<Longrightarrow> 0 \<le> foldl (\<lambda>acc b. acc * 256 + uint (b :: byte)) a bs"
  by (induction bs arbitrary: a) simp_all

lemma SetBytes_nonneg: "0 \<le> SetBytes bs"
  by (simp add: SetBytes_def foldl_SetBytes_nonneg)

lemma Exp_nonneg: "0 \<le> e \<Longrightarrow> 0 \<le> b \<Longrightarrow> Exp b e m = Some (b ^ nat e mod \<bar>m\<bar>)"
  by (simp add: Exp_def Let_def)

lemma Exp_g1_SetBytes: "Exp g1 (SetBytes bs) p = Some (2 ^ nat (SetBytes bs) mod \<bar>p\<bar>)"
  by (simp add: Exp_nonneg SetBytes_nonneg g1_def)

lemma ReadFull_buf_length:
  "length (fst (snd (ReadFull rd buf))) = length buf"
  by (simp add: ReadFull_def)

lemma NewCipher_16:
  "length key = 16 \<Longrightarrow> NewCipher key = Inr (expandKey 4 44 4 key)"
  by (simp add: NewCipher_def)

lemma generateRand_ok:
  "Rand k = Some rd \<Longrightarrow> 40 \<le> length rd \<Longrightarrow>
   generateRand k = (Inr (SetBytes (take 40 rd)), k\<lparr>Rand := Some (drop 40 rd)\<rparr>)"
  by (simp add: generateRand_def readRand_def ReadFull_def)

lemma encryptGx_eval:
  assumes "Rand k = Some rd" and "length (r k) = 16" and "gx k = Some g"
  shows "encryptGx k =
    (if length (appendMPI [] g) < BlockSize then Inl Panic
     else Inr (XORKeyStream (expandKey 4 44 4 (fst (snd (ReadFull rd (r k)))))
                 (replicate BlockSize 0) (appendMPI [] g)),
     k\<lparr>Rand := Some (fst (ReadFull rd (r k))), r := fst (snd (ReadFull rd (r k)))\<rparr>)"
proof -
  obtain rd' buf e where rf: "ReadFull rd (r k) = (rd', buf, e)"
    by (cases "ReadFull rd (r k)") auto
  have "length buf = 16"
    using ReadFull_buf_length [of rd "r k"] assms(2) rf by simp
  then show ?thesis
    using assms(1,3) rf by (simp add: encryptGx_def readRand_def Let_def NewCipher_16)
qed

lemma dhCommitMessage_eval:
  fixes k :: AKE and p :: int and rd :: "byte list"
  defines "v \<equiv> SetBytes (take 40 rd)"
  defines "g \<equiv> 2 ^ nat v mod \<bar>p\<bar>"
  defines "rf \<equiv> ReadFull (drop 40 rd) (r k)"
  defines "ct \<equiv> XORKeyStream (expandKey 4 44 4 (fst (snd rf))) (replicate BlockSize 0)
                   (appendMPI [] g)"
  defines "k' \<equiv> k\<lparr>Rand := Some (fst rf), gx := Some g, x := Some v, r := fst (snd rf),
                   myKeyID := 0\<rparr>"
  assumes "Rand k = Some rd" and "40 \<le> length rd" and "length (r k) = 16"
    and "otrVersion k = Some ver"
  shows "dhCommitMessage p k =
    (if length (appendMPI [] g) < BlockSize then (Inl Panic, k')
     else (Inr (dhCommitHeader ver k @ appendData [] ct @ appendData [] (sha256 (Bytes g))),
           k'\<lparr>encryptedGx := ct\<rparr>))"
proof -
  let ?k1 = "k\<lparr>myKeyID := 0\<rparr>"
  let ?k2 = "?k1\<lparr>Rand := Some (drop 40 rd)\<rparr>"
  let ?k3 = "?k2\<lparr>x := Some v, gx := Some g\<rparr>"
  have gr: "generateRand ?k1 = (Inr v, ?k2)"
    using assms(6,7) generateRand_ok [of ?k1 rd] by (simp add: v_def)
  have ex: "Exp g1 v p = Some g"
    by (simp add: v_def g_def Exp_g1_SetBytes)
  have eg: "encryptGx ?k3 =
      (if length (appendMPI [] g) < BlockSize then Inl Panic else Inr ct,
       ?k3\<lparr>Rand := Some (fst rf), r := fst (snd rf)\<rparr>)"
    using encryptGx_eval [of ?k3 "drop 40 rd" g] assms(6,8) by (simp add: ct_def rf_def)
  show ?thesis
    using assms(9)
    by (simp add: dhCommitMessage_def Let_def gr ex eg hashedGx_def k'_def
        dhCommitHeader_def appendData_def appendWord_def)
qed


subsection \<open>The dispatcher\<close>

lemma extractShort_versionNum:
  "extractShort (appendShort [] (versionNum ver) @ rest) 0 = Some (2, versionNum ver)"
  by (cases ver) (simp_all add: extractShort_def appendShort_def versionNum_def SetBytes_def)

lemma isQueryMessage_header:
  "\<not> isQueryMessage (appendShort [] (versionNum ver) @ rest)"
  by (cases ver) (simp_all add: isQueryMessage_def appendShort_def versionNum_def)

lemma serialize_smpMessageAbort: "serialize smpMessageAbort = [0, 6, 0, 0]"
  by (simp add: serialize_def smpMessageAbort_def appendShort_def)

lemma Receive_data_no_channel:
  assumes "\<not> isQueryMessage msg" and "extractShort msg 0 = Some (i, v)"
    and "versionAllowed (policies cv) v" and "i < length msg" and "msg ! i = msgTypeData"
    and "msgState cv \<noteq> encrypted"
  shows "Receive p next cv msg =
           (([], serialize smpMessageAbort, Some ErrEncryptedMessageWithNoSecureChannel),
            cv\<lparr>smpState := smpStateExpect1\<rparr>)"
  using assms by (simp add: Receive_def)

lemma data_message_type:
  "2 < length (appendShort [] w @ [t] @ body) \<and> (appendShort [] w @ [t] @ body) ! 2 = t"
  by (simp add: appendShort_def)

text \<open>
  Claim C5. A data message (a header of an allowed version with message type 3, whatever
  follows) received while the message-state is plaintext or finished makes \<^verbatim>\<open>Receive\<close>
  return the error \<^verbatim>\<open>errEncryptedMessageWithNoSecureChannel\<close>; the outbound message is the
  serialized SMP abort TLV, which is the four bytes 00 06 00 00, and the SMP sub-state
  afterwards is \<open>expect1\<close>.
\<close>

theorem Receive_data_message_without_secure_channel:
  assumes "msgState cv = plainText \<or> msgState cv = finished"
    and "versionAllowed (policies cv) (versionNum ver)"
  shows "Receive p next cv (appendShort [] (versionNum ver) @ [msgTypeData] @ body) =
           (([], serialize smpMessageAbort, Some ErrEncryptedMessageWithNoSecureChannel),
            cv\<lparr>smpState := smpStateExpect1\<rparr>) \<and>
         serialize smpMessageAbort = [0, 6, 0, 0] \<and>
         smpState (snd (Receive p next cv
           (appendShort [] (versionNum ver) @ [msgTypeData] @ body))) = smpStateExpect1"
proof -
  let ?msg = "appendShort [] (versionNum ver) @ [msgTypeData] @ body"
  have ne: "msgState cv \<noteq> encrypted"
    using assms(1) by auto
  have "Receive p next cv ?msg =
          (([], serialize smpMessageAbort, Some ErrEncryptedMessageWithNoSecureChannel),
           cv\<lparr>smpState := smpStateExpect1\<rparr>)"
    using data_message_type [of "versionNum ver" msgTypeData body]
    by (intro Receive_data_no_channel [OF isQueryMessage_header extractShort_versionNum
          assms(2) _ _ ne]) simp_all
  then show ?thesis
    by (simp add: serialize_smpMessageAbort)
qed

lemma bob_fields:
  "policies bob = {allowV2, allowV3}" "msgState bob = plainText"
  by (simp_all add: bob_def newConversation_def)

theorem Receive_data_message_without_secure_channel_witness:
  "Receive p127 noHandler bob [0, 3, 3] =
     (([], [0, 6, 0, 0], Some ErrEncryptedMessageWithNoSecureChannel),
      bob\<lparr>smpState := smpStateExpect1\<rparr>) \<and>
   Receive p127 noHandler (bob\<lparr>msgState := finished\<rparr>) [0, 3, 3] =
     (([], [0, 6, 0, 0], Some ErrEncryptedMessageWithNoSecureChannel),
      bob\<lparr>msgState := finished, smpState := smpStateExpect1\<rparr>)"
  using Receive_data_message_without_secure_channel [of bob otrV3 p127 noHandler "[]"]
    Receive_data_message_without_secure_channel
      [of "bob\<lparr>msgState := finished\<rparr>" otrV3 p127 noHandler "[]"]
  by (simp add: bob_fields versionAllowed_def versionNum_def appendShort_def msgTypeData_def)

text \<open>
  Claim C9. An encoded message (not a query) whose header carries a protocol version
  that the conversation's policies do not allow makes \<^verbatim>\<open>receive\<close> return
  \<^verbatim>\<open>errWrongProtocolVersion\<close> with no outbound message, and leaves the conversation as it
  was.
\<close>

theorem receive_rejects_wrong_version:
  assumes "\<not> isQueryMessage msg" and "extractShort msg 0 = Some (i, v)"
    and "\<not> versionAllowed (policies cv) v"
  shows "receive p next cv msg = (([], Some ErrWrongProtocolVersion), cv)"
  using assms by (simp add: receive_def Receive_def)

theorem receive_rejects_wrong_version_witness:
  "\<not> isQueryMessage [0, 2] \<and> extractShort [0, 2] 0 = Some (2, 2) \<and>
   \<not> versionAllowed (policies alice) 2 \<and>
   receive p127 noHandler alice [0, 2] = (([], Some ErrWrongProtocolVersion), alice)"
  using receive_rejects_wrong_version [of "[0, 2]" 2 2 alice p127 noHandler]
  by (simp add: isQueryMessage_def extractShort_def SetBytes_def versionAllowed_def alice_def
      newConversation_def)

subsection \<open>A query message\<close>

lemma parse_queryV3: "parseOTRQueryMessage queryV3 = [3]"
  by (simp add: parseOTRQueryMessage_def queryV3_def versionDigits_def Let_def)

lemma take3_dhCommitHeader_v3: "take 3 (dhCommitHeader otrV3 k @ rest) = [0, 3, 2]"
  by (simp add: dhCommitHeader_def appendShort_def versionNum_def msgTypeDHCommit_def)

lemma receive_queryV3:
  assumes "allowV3 \<in> policies cv"
  shows "receive p next cv queryV3 =
    (case dhCommitMessage p ((ake cv)\<lparr>otrVersion := Some otrV3\<rparr>) of
       (Inl e, k) \<Rightarrow>
         (([], Some e), cv\<lparr>version := Some otrV3, ake := k\<rparr>)
     | (Inr out, k) \<Rightarrow>
         ((out, None),
          cv\<lparr>version := Some otrV3, ake := k, akeState := authStateAwaitingDHKey\<rparr>))"
proof -
  have q: "isQueryMessage queryV3"
    by (simp add: isQueryMessage_def queryV3_def)
  have sel: "selectVersion (policies cv) (parseOTRQueryMessage queryV3) = Some otrV3"
    using assms by (simp add: parse_queryV3 selectVersion_def)
  show ?thesis
    by (simp add: receive_def Receive_def q receiveQueryMessage_def sel Let_def
        split: prod.splits sum.splits)
qed

text \<open>
  When the random source delivers the 40 bytes of the exponent and the MPI of \<open>gx\<close>
  fills an AES block, the query is answered as the spec's first scenario describes.
\<close>

lemma receive_query_long_gx:
  assumes "allowV3 \<in> policies cv"
    and "Rand (ake cv) = Some rd" and "40 \<le> length rd" and "length (r (ake cv)) = 16"
    and "BlockSize \<le> length (appendMPI [] (2 ^ nat (SetBytes (take 40 rd)) mod \<bar>p\<bar>))"
  shows "snd (fst (receive p next cv queryV3)) = None \<and>
         take 3 (fst (fst (receive p next cv queryV3))) = [0, 3, 2] \<and>
         akeState (snd (receive p next cv queryV3)) = authStateAwaitingDHKey"
  using assms(5)
    dhCommitMessage_eval [of "(ake cv)\<lparr>otrVersion := Some otrV3\<rparr>" rd otrV3 p]
    assms(2-4)
  by (simp add: receive_queryV3 [OF assms(1)] take3_dhCommitHeader_v3 del: take_append)

subsection \<open>Evaluating SHA-256 and AES\<close>

text \<open>
  Rewrite rules that keep every intermediate word a normalised numeral, so that the
  simplifier computes a digest or a cipher block of concrete bytes.
\<close>

lemma replicate_numeral: "replicate (numeral n) v = v # replicate (pred_numeral n) v"
  by (simp add: numeral_eq_Suc)

lemma tb32: "take_bit 32 (w :: 32 word) = w"
  by (simp add: take_bit_word_eq_self)

lemma rotr_eval: "rotr n w = drop_bit n w OR take_bit 32 (push_bit (32 - n) w)"
  by (simp only: tb32 rotr_def)

lemma sha256_next_eval:
  "sha256_next w = take_bit 32 (ssig1 (w ! 14) + w ! 9 + ssig0 (w ! 1) + w ! 0)"
  by (simp only: tb32 sha256_next_def)

lemma sha256_round_eval:
  "sha256_round [v0, v1, v2, v3, v4, v5, v6, v7] kt wt =
     (let t1 = take_bit 32 (v7 + bsig1 v4 + ((v4 AND v5) XOR (take_bit 32 (NOT v4) AND v6))
                 + kt + wt);
          t2 = take_bit 32 (bsig0 v0 + ((v0 AND v1) XOR (v0 AND v2) XOR (v1 AND v2)))
      in [take_bit 32 (t1 + t2), v0, v1, v2, take_bit 32 (v3 + t1), v4, v5, v6])"
  by (simp add: sha256_round_def Let_def tb32)

lemma sha256_block_eval:
  "sha256_block h blk =
     map (take_bit 32) (map2 (+) h (sha256_rounds sha256_K (wordsOf blk) h))"
  by (simp add: sha256_block_def tb32)

lemmas sha256_eval =
  sha256_def sha256_block_eval sha256_round_eval sha256_next_eval bsig0_def bsig1_def
  ssig0_def ssig1_def rotr_eval u32Bytes_def u64Bytes_def sha256_pad_def sha256_K_def
  sha256_H0_def sha256_blocks.simps replicate_numeral Let_def

lemma tb8: "take_bit 8 (b :: byte) = b"
  by (simp add: take_bit_word_eq_self)

lemma xtime_eval: "xtime b = take_bit 8 (push_bit 1 b XOR (drop_bit 7 b * 27))"
  by (simp only: tb8 xtime_def)

lemmas aes_eval =
  sboxRow_def SubBytes_def xtime_eval AddRoundKey_def Rcon_def expandKey.simps
  cipherRounds.simps encryptBlock_def Let_def

lemma sha256_Bytes_gx100:
  "sha256 [16, 0, 0, 0, 0, 0, 0, 0, 0, 0, 0, 0, 0] =
     [86, 177, 193, 79, 191, 229, 102, 137, 182, 139, 79, 181, 98, 9, 126, 67,
      227, 179, 111, 153, 218, 2, 170, 213, 218, 103, 180, 37, 123, 248, 202, 28]"
  by (simp add: sha256_eval cong: let_weak_cong)

lemma sha256_MPI_gx100:
  "sha256 [0, 0, 0, 13, 16, 0, 0, 0, 0, 0, 0, 0, 0, 0, 0, 0, 0] =
     [36, 198, 164, 229, 58, 148, 95, 236, 120, 9, 233, 222, 38, 254, 111, 194,
      25, 188, 158, 166, 11, 184, 113, 117, 212, 113, 61, 23, 214, 132, 126, 215]"
  by (simp add: sha256_eval cong: let_weak_cong)

lemma sha256_MPI_32:
  "sha256 [0, 0, 0, 1, 32] =
     [227, 14, 197, 211, 165, 20, 128, 100, 178, 133, 186, 94, 164, 78, 208, 183,
      85, 122, 173, 3, 198, 140, 229, 63, 29, 29, 20, 219, 140, 179, 229, 178]"
  by (simp add: sha256_eval cong: let_weak_cong)

lemma sha256_MPI_33:
  "sha256 [0, 0, 0, 1, 33] =
     [236, 8, 71, 200, 165, 194, 165, 6, 222, 9, 203, 152, 132, 218, 240, 16,
      65, 171, 8, 150, 94, 198, 167, 87, 61, 173, 118, 191, 153, 207, 169, 196]"
  by (simp add: sha256_eval cong: let_weak_cong)

lemma encryptBlock_zeroKey:
  "encryptBlock (expandKey 4 44 4 zeroKey) (replicate BlockSize 0) =
     [102, 233, 75, 212, 239, 138, 44, 59, 136, 76, 250, 89, 202, 52, 43, 46]"
  by (simp add: zeroKey_def BlockSize_def replicate_numeral aes_eval cong: let_weak_cong)

subsection \<open>Decrypting and parsing a Reveal-Signature message\<close>

lemma XORKeyStream_short:
  assumes "src \<noteq> []" and "length src \<le> 16"
  shows "XORKeyStream w ctr src = map2 (XOR) src (encryptBlock w ctr)"
  using assms
  by (simp add: XORKeyStream.simps [of w ctr src] XORKeyStream.simps [of w "incCtr ctr" "[]"])

lemma decrypt_zeroKey:
  assumes "src \<noteq> []" and "length src \<le> 16"
  shows "decrypt zeroKey src =
           Inr (map2 (XOR) src
                  [102, 233, 75, 212, 239, 138, 44, 59, 136, 76, 250, 89, 202, 52, 43, 46])"
proof -
  have "NewCipher zeroKey = Inr (expandKey 4 44 4 zeroKey)"
    by (rule NewCipher_16) (simp add: zeroKey_def)
  then show ?thesis
    using assms by (simp add: decrypt_def XORKeyStream_short encryptBlock_zeroKey)
qed

lemma decrypt_32: "decrypt zeroKey [102, 233, 75, 213, 207] = Inr [0, 0, 0, 1, 32]"
  by (simp add: decrypt_zeroKey)

lemma decrypt_33: "decrypt zeroKey [102, 233, 75, 213, 206] = Inr [0, 0, 0, 1, 33]"
  by (simp add: decrypt_zeroKey)

lemma decrypt_32_0: "decrypt zeroKey [102, 233, 75, 213, 207, 138] = Inr [0, 0, 0, 1, 32, 0]"
  by (simp add: decrypt_zeroKey)


lemma unat_length_word: "n < 2 ^ 32 \<Longrightarrow> unat (word_of_nat n :: 32 word) = n"
  by (simp add: unat_of_nat)

lemma uint_byte_of: "uint (ucast (drop_bit n (w :: 32 word)) :: byte) = uint w div 2 ^ n mod 256"
proof -
  have "take_bit 32 (uint w) = uint w"
    using uint_lt2p [of w] by (simp add: take_bit_int_eq_self)
  then have "uint (ucast (drop_bit n w) :: byte) = take_bit 8 (drop_bit n (uint w))"
    by (simp add: unsigned_ucast_eq unsigned_drop_bit_eq take_bit_word_eq_self
       del: drop_bit_eq_div)
  then show ?thesis
    by (simp add: take_bit_eq_mod drop_bit_eq_div)
qed

lemma be32:
  fixes n :: int
  assumes "0 \<le> n" and "n < 4294967296"
  shows "((n div 16777216 mod 256 * 256 + n div 65536 mod 256) * 256 + n div 256 mod 256) * 256
           + n mod 256 = n"
proof -
  define q1 where "q1 = n div 256"
  define q2 where "q2 = q1 div 256"
  define q3 where "q3 = q2 div 256"
  have e: "n div 65536 = q2" "n div 16777216 = q3"
    by (simp_all add: q1_def q2_def q3_def)
  have "q3 < 256" "0 \<le> q3"
    using assms by (simp_all add: q1_def q2_def q3_def)
  then have q3: "q3 mod 256 = q3"
    by simp
  have d: "q3 * 256 + q2 mod 256 = q2" "q2 * 256 + q1 mod 256 = q1" "q1 * 256 + n mod 256 = n"
    by (simp_all add: q1_def q2_def q3_def)
  have "n div 256 = q1"
    by (simp add: q1_def)
  then show ?thesis
    by (simp only: e q3 d)
qed

lemma SetBytes_u32Bytes: "SetBytes (u32Bytes w) = uint w"
proof -
  have b24: "uint (ucast (drop_bit 24 w) :: byte) = uint w div 16777216 mod 256"
    using uint_byte_of [of 24 w] by simp
  have b16: "uint (ucast (drop_bit 16 w) :: byte) = uint w div 65536 mod 256"
    using uint_byte_of [of 16 w] by simp
  have b8: "uint (ucast (drop_bit 8 w) :: byte) = uint w div 256 mod 256"
    using uint_byte_of [of 8 w] by simp
  have b0: "uint (ucast w :: byte) = uint w mod 256"
    using uint_byte_of [of 0 w] by simp
  have "SetBytes (u32Bytes w) =
          ((uint (ucast (drop_bit 24 w) :: byte) * 256 + uint (ucast (drop_bit 16 w) :: byte))
             * 256 + uint (ucast (drop_bit 8 w) :: byte)) * 256 + uint (ucast w :: byte)"
    by (simp add: SetBytes_def u32Bytes_def)
  also have "\<dots> = ((uint w div 16777216 mod 256 * 256 + uint w div 65536 mod 256) * 256
                      + uint w div 256 mod 256) * 256 + uint w mod 256"
    by (simp only: b24 b16 b8 b0)
  also have "\<dots> = uint w"
    using uint_lt2p [of w] by (intro be32) simp_all
  finally show ?thesis .
qed

lemma extractData_appendData:
  assumes "length d < 2 ^ 32"
  shows "extractData (pre @ appendData [] d @ rest) (length pre) =
           Some (length pre + 4 + length d, d)"
proof -
  have t: "take 4 (u32Bytes w @ zs) = u32Bytes w" for w zs
    by (simp add: u32Bytes_def)
  have l: "length (u32Bytes w) = 4" for w
    by (simp add: u32Bytes_def)
  show ?thesis
    using assms
    by (simp add: extractData_def extractWord_def appendData_def appendWord_def t l
        SetBytes_u32Bytes unat_length_word)
qed

lemma appendData_append: "appendData l d = l @ appendData [] d"
  by (simp add: appendData_def appendWord_def)

lemma length_appendData: "length (appendData [] bs) = 4 + length bs"
  by (simp add: appendData_def appendWord_def u32Bytes_def)

lemma revealSigBody_fields:
  assumes "length key < 2 ^ 32" and "length sig < 2 ^ 32"
  shows "extractData (revealSigBody key sig mac) 0 = Some (4 + length key, key) \<and>
         extractData (revealSigBody key sig mac) (4 + length key) =
           Some (8 + length key + length sig, sig) \<and>
         drop (8 + length key + length sig) (revealSigBody key sig mac) = mac"
proof -
  have b: "revealSigBody key sig mac = appendData [] key @ appendData [] sig @ mac"
    by (simp add: revealSigBody_def appendData_append [of "appendData [] key"])
  have "extractData (revealSigBody key sig mac) 0 = Some (4 + length key, key)"
    using extractData_appendData [OF assms(1), of "[]" "appendData [] sig @ mac"]
    by (simp add: b)
  moreover have "extractData (revealSigBody key sig mac) (4 + length key) =
           Some (8 + length key + length sig, sig)"
    using extractData_appendData [OF assms(2), of "appendData [] key" mac]
    by (simp add: b length_appendData)
  moreover have "drop (8 + length key + length sig) (revealSigBody key sig mac) = mac"
    by (simp add: b length_appendData)
  ultimately show ?thesis
    by simp
qed

lemma processRevealSig_eval:
  assumes "length key < 2 ^ 32" and "length sig < 2 ^ 32" and "length mac = 20"
    and "decrypt key (encryptedGx k) = Inr d"
  shows "processRevealSig p k (revealSigBody key sig mac) =
    (case checkDecryptedGx p (k\<lparr>encryptedGx := d\<rparr>) d of
       (Some e, k') \<Rightarrow> (Some e, k')
     | (None, k') \<Rightarrow>
         (case calcDHSharedSecret p k' False of
            Inl e \<Rightarrow> (Some e, k')
          | Inr None \<Rightarrow> (Some Panic, k')
          | Inr (Some s) \<Rightarrow> (None, calcAKEKeys s k')))"
proof -
  obtain e k' where c: "checkDecryptedGx p (k\<lparr>encryptedGx := d\<rparr>) d = (e, k')"
    by (cases "checkDecryptedGx p (k\<lparr>encryptedGx := d\<rparr>) d")
  have len: "length (revealSigBody key sig mac) - (8 + length key + length sig) = 20"
    using revealSigBody_fields [OF assms(1,2), of mac] assms(3) by (metis length_drop)
  show ?thesis
    using assms(4) revealSigBody_fields [OF assms(1,2), of mac]
    by (simp add: processRevealSig_def processEncryptedSig_def c len
        split: option.splits sum.splits)
qed

lemma checkDecryptedGx_bad_digest:
  "sha256 d \<noteq> digest k \<Longrightarrow> checkDecryptedGx p k d = (Some ErrBadCommitMAC, k)"
  by (simp add: checkDecryptedGx_def ConstantTimeCompare_def)

lemma checkDecryptedGx_trailing:
  assumes "sha256 d = digest k" and "extractMPI d 0 = Some (n, v)"
    and "n < length (encryptedGx k)"
  shows "checkDecryptedGx p k d = (Some ErrGxCorrupt, k\<lparr>gx := Some v\<rparr>)"
  using assms by (simp add: checkDecryptedGx_def ConstantTimeCompare_def)

lemma checkDecryptedGx_ok:
  assumes "sha256 d = digest k" and "extractMPI d 0 = Some (n, v)"
    and "length (encryptedGx k) \<le> n" and "2 \<le> v" and "v \<le> p - 2"
  shows "checkDecryptedGx p k d = (None, k\<lparr>gx := Some v\<rparr>)"
  using assms
  by (simp add: checkDecryptedGx_def ConstantTimeCompare_def Cmp_def g1_def pMinusTwo_def)

lemma extractMPI_32: "extractMPI ([0, 0, 0, 1, 32] @ rest) 0 = Some (5, 32)"
  by (simp add: extractMPI_def extractData_def extractWord_def SetBytes_def)

lemma Exp_32_3: "Exp 32 3 p127 = Some 32768"
  by (simp add: Exp_nonneg p127_def)

lemma SetBytes_rand40: "SetBytes rand40 = 100"
  by (simp add: SetBytes_def rand40_def)

lemma gx_rand40: "(2 :: int) ^ nat (SetBytes (take 40 rand40)) mod \<bar>p127\<bar> = gx100"
  by (simp add: SetBytes_def rand40_def p127_def gx100_def)

lemma Bytes_gx100: "Bytes gx100 = [16, 0, 0, 0, 0, 0, 0, 0, 0, 0, 0, 0, 0]"
  by (simp add: Bytes_def gx100_def natBytes.simps)

lemma MPI_gx100: "appendMPI [] gx100 = [0, 0, 0, 13, 16, 0, 0, 0, 0, 0, 0, 0, 0, 0, 0, 0, 0]"
  by (simp add: appendMPI_def appendData_def appendWord_def u32Bytes_def Bytes_gx100)
    (simp add: gx100_def)

subsection \<open>A query message answered with a panic\<close>

text \<open>
  Claim C8. The claim does not hold for every conversation that allows version 3: when
  the MPI of \<open>gx\<close> is shorter than an AES block, \<^verbatim>\<open>ciphertext[:aes.BlockSize]\<close> in
  \<^verbatim>\<open>encryptGx\<close> panics, and \<^verbatim>\<open>receive\<close> of the query \<^verbatim>\<open>?OTRv3?\<close> ends in that panic: there
  is no outbound message and the AKE sub-state is not changed.
\<close>

theorem receive_query_panics_on_short_gx:
  assumes "allowV3 \<in> policies cv"
    and "Rand (ake cv) = Some rd" and "40 \<le> length rd" and "length (r (ake cv)) = 16"
    and "length (appendMPI [] (2 ^ nat (SetBytes (take 40 rd)) mod \<bar>p\<bar>)) < BlockSize"
  shows "fst (dhCommitMessage p ((ake cv)\<lparr>otrVersion := Some otrV3\<rparr>)) = Inl Panic \<and>
         snd (fst (receive p next cv queryV3)) = Some Panic \<and>
         fst (fst (receive p next cv queryV3)) = [] \<and>
         akeState (snd (receive p next cv queryV3)) = akeState cv"
  using assms(5)
    dhCommitMessage_eval [of "(ake cv)\<lparr>otrVersion := Some otrV3\<rparr>" rd otrV3 p]
    assms(2-4)
  by (simp add: receive_queryV3 [OF assms(1)])

theorem receive_query_panics_on_short_gx_witness:
  "appendMPI [] (2 ^ nat (SetBytes (take 40 zeros56)) mod \<bar>p127\<bar>) = [0, 0, 0, 1, 1] \<and>
   fst (dhCommitMessage p127 ((ake bobZeros)\<lparr>otrVersion := Some otrV3\<rparr>)) = Inl Panic \<and>
   snd (fst (receive p127 noHandler bobZeros queryV3)) = Some Panic \<and>
   fst (fst (receive p127 noHandler bobZeros queryV3)) = [] \<and>
   akeState (snd (receive p127 noHandler bobZeros queryV3)) = authStateNone"
proof -
  have m: "appendMPI [] (2 ^ nat (SetBytes (take 40 zeros56)) mod \<bar>p127\<bar>) = [0, 0, 0, 1, 1]"
    by (simp add: zeros56_def SetBytes_def p127_def appendMPI_def appendData_def appendWord_def
        u32Bytes_def Bytes_def natBytes.simps)
  show ?thesis
    using receive_query_panics_on_short_gx [of bobZeros zeros56 p127 noHandler]
    by (simp add: m BlockSize_def)
      (simp add: bobZeros_def newConversation_def zeroAKE_def zeros56_def)
qed

subsection \<open>The DH-Commit message\<close>

text \<open>
  Claim C3. The hash field of the DH-Commit message that \<^verbatim>\<open>dhCommitMessage\<close> returns is
  the SHA-256 digest of \<^verbatim>\<open>gx.Bytes()\<close>, the magnitude of \<open>gx\<close> without the 4-byte length
  prefix: the message is the header, \<open>DATA(encryptedGx)\<close> and
  \<open>DATA(SHA-256(Bytes(gx)))\<close>, not \<open>DATA(SHA-256(MPI(gx)))\<close>.
\<close>

theorem dhCommitMessage_hashes_gx_without_length_prefix:
  assumes "Rand k = Some rd" and "40 \<le> length rd" and "length (r k) = 16"
    and "otrVersion k = Some ver"
    and "BlockSize \<le> length (appendMPI [] (2 ^ nat (SetBytes (take 40 rd)) mod \<bar>p\<bar>))"
  shows "fst (dhCommitMessage p k) =
           Inr (dhCommitHeader ver k @
                appendData [] (encryptedGx (snd (dhCommitMessage p k))) @
                appendData [] (sha256 (Bytes (2 ^ nat (SetBytes (take 40 rd)) mod \<bar>p\<bar>)))) \<and>
         gx (snd (dhCommitMessage p k)) = Some (2 ^ nat (SetBytes (take 40 rd)) mod \<bar>p\<bar>)"
  using assms(5) dhCommitMessage_eval [OF assms(1-4), of p] by simp

lemma aliceAKE_fields:
  "Rand aliceAKE = Some rand56" "length (r aliceAKE) = 16" "otrVersion aliceAKE = Some otrV3"
  "take 40 rand56 = rand40" "40 \<le> length rand56" "take 40 rand40 = rand40"
  by (simp_all add: aliceAKE_def zeroAKE_def rand56_def rand40_def replicate_numeral)

theorem dhCommitMessage_hashes_gx_without_length_prefix_witness:
  "fst (dhCommitMessage p127 aliceAKE) =
     Inr (dhCommitHeader otrV3 aliceAKE @
          appendData [] (encryptedGx (snd (dhCommitMessage p127 aliceAKE))) @
          appendData []
            [86, 177, 193, 79, 191, 229, 102, 137, 182, 139, 79, 181, 98, 9, 126, 67,
             227, 179, 111, 153, 218, 2, 170, 213, 218, 103, 180, 37, 123, 248, 202, 28]) \<and>
   gx (snd (dhCommitMessage p127 aliceAKE)) = Some gx100 \<and>
   sha256 (appendMPI [] gx100) =
     [36, 198, 164, 229, 58, 148, 95, 236, 120, 9, 233, 222, 38, 254, 111, 194,
      25, 188, 158, 166, 11, 184, 113, 117, 212, 113, 61, 23, 214, 132, 126, 215] \<and>
   fst (checkDecryptedGx p127
          (bobAKE\<lparr>encryptedGx := appendMPI [] gx100, digest := sha256 (Bytes gx100)\<rparr>)
          (appendMPI [] gx100)) = Some ErrBadCommitMAC"
proof -
  have g: "2 ^ nat (SetBytes (take 40 rand56)) mod \<bar>p127\<bar> = gx100"
    using gx_rand40 by (simp only: aliceAKE_fields)
  have "sha256 (appendMPI [] gx100) \<noteq> sha256 (Bytes gx100)"
    by (simp add: MPI_gx100 Bytes_gx100 sha256_MPI_gx100 sha256_Bytes_gx100)
  then have c: "fst (checkDecryptedGx p127
          (bobAKE\<lparr>encryptedGx := appendMPI [] gx100, digest := sha256 (Bytes gx100)\<rparr>)
          (appendMPI [] gx100)) = Some ErrBadCommitMAC"
    by (simp add: checkDecryptedGx_bad_digest)
  have l: "BlockSize \<le> length (appendMPI [] (2 ^ nat (SetBytes (take 40 rand56)) mod \<bar>p127\<bar>))"
    by (simp only: g) (simp add: MPI_gx100 BlockSize_def)
  have "fst (dhCommitMessage p127 aliceAKE) =
           Inr (dhCommitHeader otrV3 aliceAKE @
                appendData [] (encryptedGx (snd (dhCommitMessage p127 aliceAKE))) @
                appendData [] (sha256 (Bytes gx100))) \<and>
        gx (snd (dhCommitMessage p127 aliceAKE)) = Some gx100"
    using dhCommitMessage_hashes_gx_without_length_prefix
      [OF aliceAKE_fields(1) aliceAKE_fields(5) aliceAKE_fields(2) aliceAKE_fields(3) l]
    by (simp only: g)
  then show ?thesis
    using c by (simp add: MPI_gx100 Bytes_gx100 sha256_MPI_gx100 sha256_Bytes_gx100)
qed

text \<open>
  Claim C6. A random source that fails while the 16 bytes of \<open>r\<close> are drawn does not
  make \<^verbatim>\<open>dhCommitMessage\<close> fail: \<^verbatim>\<open>encryptGx\<close> overwrites the error of \<^verbatim>\<open>io.ReadFull\<close>
  with the result of \<^verbatim>\<open>aes.NewCipher\<close>, so with a source of at least 40 and fewer than 56
  bytes the read of \<open>r\<close> reports an error and \<^verbatim>\<open>dhCommitMessage\<close> still returns a
  message, encrypted under whatever \<open>r\<close> holds after the short read.
\<close>

theorem dhCommitMessage_ignores_failed_draw_of_r:
  assumes "Rand k = Some rd" and "40 \<le> length rd" and "length rd < 56"
    and "length (r k) = 16" and "otrVersion k = Some ver"
    and "BlockSize \<le> length (appendMPI [] (2 ^ nat (SetBytes (take 40 rd)) mod \<bar>p\<bar>))"
  shows "snd (snd (ReadFull (drop 40 rd) (r k))) =
           Some (if length rd = 40 then EOF else ErrUnexpectedEOF) \<and>
         (\<exists>out. fst (dhCommitMessage p k) = Inr out) \<and>
         r (snd (dhCommitMessage p k)) = drop 40 rd @ drop (length rd - 40) (r k)"
  using assms(6) dhCommitMessage_eval [OF assms(1,2,4,5), of p] assms(2,3,4)
  by (auto simp add: ReadFull_def)

lemma aliceAKE40_fields:
  "Rand aliceAKE40 = Some rand40" "length (r aliceAKE40) = 16"
  "otrVersion aliceAKE40 = Some otrV3" "length rand40 = 40" "take 40 rand40 = rand40"
  "r aliceAKE40 = [0, 0, 0, 0, 0, 0, 0, 0, 0, 0, 0, 0, 0, 0, 0, 0]"
  by (simp_all add: aliceAKE40_def zeroAKE_def rand40_def replicate_numeral)

theorem dhCommitMessage_ignores_failed_draw_of_r_witness:
  "snd (snd (ReadFull (drop 40 rand40) (r aliceAKE40))) = Some EOF \<and>
   (\<exists>out. fst (dhCommitMessage p127 aliceAKE40) = Inr out) \<and>
   r (snd (dhCommitMessage p127 aliceAKE40)) = [0, 0, 0, 0, 0, 0, 0, 0, 0, 0, 0, 0, 0, 0, 0, 0]"
proof -
  have l: "BlockSize \<le> length (appendMPI [] (2 ^ nat (SetBytes (take 40 rand40)) mod \<bar>p127\<bar>))"
    by (simp only: gx_rand40) (simp add: MPI_gx100 BlockSize_def)
  show ?thesis
    using dhCommitMessage_ignores_failed_draw_of_r [OF _ _ _ _ _ l, of aliceAKE40 otrV3]
    by (simp add: aliceAKE40_fields)
qed

subsection \<open>The Reveal-Signature message\<close>

lemma bobAKE_fields:
  "encryptedGx bobAKE = [102, 233, 75, 213, 207]"
  "digest bobAKE = sha256 [0, 0, 0, 1, 32]"
  "encryptedGx bobAKECorrupt = [102, 233, 75, 213, 206]"
  "digest bobAKECorrupt = sha256 [0, 0, 0, 1, 32]"
  "encryptedGx bobAKETrailing = [102, 233, 75, 213, 207, 138]"
  "digest bobAKETrailing = sha256 [0, 0, 0, 1, 32, 0]"
  "length zeroKey = 16" "length mac00 = 20" "length mac255 = 20"
  by (simp_all add: bobAKE_def bobAKECorrupt_def bobAKETrailing_def zeroKey_def mac00_def
      mac255_def sha256_MPI_32)

text \<open>
  Claim C1. \<^verbatim>\<open>processRevealSig\<close> verifies neither the MAC nor the DSA signature:
  \<^verbatim>\<open>processEncryptedSig\<close> returns nil whatever it is given. Once the commit digest check
  and the range check of \<open>gx\<close> have passed, every Reveal-Signature message with a
  20-byte MAC field is accepted, whatever the encrypted signature and the MAC are, and the
  resulting context does not depend on them.
\<close>

theorem processRevealSig_accepts_any_signature:
  assumes "length key < 2 ^ 32" and "length sig < 2 ^ 32" and "length mac = 20"
    and "decrypt key (encryptedGx k) = Inr d"
    and "checkDecryptedGx p (k\<lparr>encryptedGx := d\<rparr>) d = (None, k')"
    and "calcDHSharedSecret p k' False = Inr (Some s)"
  shows "processRevealSig p k (revealSigBody key sig mac) = (None, calcAKEKeys s k')"
  using assms(5,6) by (simp add: processRevealSig_eval [OF assms(1-4)])

lemma checkDecryptedGx_bobAKE:
  "checkDecryptedGx p127 (bobAKE\<lparr>encryptedGx := [0, 0, 0, 1, 32]\<rparr>) [0, 0, 0, 1, 32] =
     (None, bobAKE\<lparr>encryptedGx := [0, 0, 0, 1, 32], gx := Some 32\<rparr>)"
  using extractMPI_32 [of "[]"]
  by (intro checkDecryptedGx_ok [where n = 5]) (simp_all add: bobAKE_fields p127_def)

lemma calcDHSharedSecret_bobAKE:
  "calcDHSharedSecret p127 (bobAKE\<lparr>encryptedGx := [0, 0, 0, 1, 32], gx := Some 32\<rparr>) False =
     Inr (Some 32768)"
  by (simp add: calcDHSharedSecret_def bobAKE_def Exp_32_3)

theorem processRevealSig_accepts_any_signature_witness:
  "mac00 \<noteq> mac255 \<and>
   fst (processRevealSig p127 bobAKE (revealSigBody zeroKey [] mac00)) = None \<and>
   fst (processRevealSig p127 bobAKE (revealSigBody zeroKey [] mac255)) = None \<and>
   snd (processRevealSig p127 bobAKE (revealSigBody zeroKey [] mac00)) =
   snd (processRevealSig p127 bobAKE (revealSigBody zeroKey [] mac255))"
  using
    processRevealSig_accepts_any_signature [of zeroKey "[]" mac00 bobAKE "[0, 0, 0, 1, 32]"
      p127 "bobAKE\<lparr>encryptedGx := [0, 0, 0, 1, 32], gx := Some 32\<rparr>" 32768]
    processRevealSig_accepts_any_signature [of zeroKey "[]" mac255 bobAKE
      "[0, 0, 0, 1, 32]" p127 "bobAKE\<lparr>encryptedGx := [0, 0, 0, 1, 32], gx := Some 32\<rparr>" 32768]
  by (simp add: bobAKE_fields decrypt_32 checkDecryptedGx_bobAKE calcDHSharedSecret_bobAKE)
    (simp add: mac00_def mac255_def)

text \<open>
  Claim C7, as stated, fails: with the last byte of the stored \<open>encryptedGx\<close> changed the
  decrypted bytes are 00 00 00 01 21 instead of 00 00 00 01 20, their digest is not the
  committed one, and \<^verbatim>\<open>processRevealSig\<close> returns "bad commit MAC in reveal signature
  message", not "gx corrupt after decryption".
\<close>

theorem processRevealSig_corrupt_trailing_byte_counterexample:
  "decrypt zeroKey (encryptedGx bobAKE) = Inr [0, 0, 0, 1, 32] \<and>
   decrypt zeroKey (encryptedGx bobAKECorrupt) = Inr [0, 0, 0, 1, 33] \<and>
   fst (processRevealSig p127 bobAKECorrupt (revealSigBody zeroKey [] mac00)) =
     Some ErrBadCommitMAC"
proof -
  have "sha256 [0, 0, 0, 1, 33] \<noteq> digest (bobAKECorrupt\<lparr>encryptedGx := [0, 0, 0, 1, 33]\<rparr>)"
    by (simp add: bobAKE_fields sha256_MPI_32 sha256_MPI_33)
  then show ?thesis
    using processRevealSig_eval [of zeroKey "[]" mac00 bobAKECorrupt "[0, 0, 0, 1, 33]" p127]
    by (simp add: bobAKE_fields decrypt_32 decrypt_33 checkDecryptedGx_bad_digest)
qed

text \<open>
  Claim C7, amended. Let a well-formed Reveal-Signature message be processed, and let
  \<open>d\<close> be the decryption of the stored \<open>encryptedGx\<close> under the revealed key. If the
  SHA-256 digest of \<open>d\<close> is not the stored commit digest (which is what a corrupted
  trailing byte of \<open>encryptedGx\<close> leads to), \<^verbatim>\<open>processRevealSig\<close> rejects the message with
  "bad commit MAC in reveal signature message". The error "gx corrupt after decryption" is
  returned when the digest of \<open>d\<close> is the stored one and \<open>d\<close> has bytes after the MPI
  of \<open>gx\<close>.
\<close>

theorem processRevealSig_corrupt_encryptedGx:
  assumes "length key < 2 ^ 32" and "length sig < 2 ^ 32" and "length mac = 20"
    and "decrypt key (encryptedGx k) = Inr d"
  shows "(sha256 d \<noteq> digest k \<longrightarrow>
            fst (processRevealSig p k (revealSigBody key sig mac)) = Some ErrBadCommitMAC) \<and>
         (sha256 d = digest k \<and> extractMPI d 0 = Some (n, v) \<and> n < length d \<longrightarrow>
            fst (processRevealSig p k (revealSigBody key sig mac)) = Some ErrGxCorrupt)"
proof (intro conjI impI)
  assume "sha256 d \<noteq> digest k"
  then have "checkDecryptedGx p (k\<lparr>encryptedGx := d\<rparr>) d =
               (Some ErrBadCommitMAC, k\<lparr>encryptedGx := d\<rparr>)"
    by (intro checkDecryptedGx_bad_digest) simp
  then show "fst (processRevealSig p k (revealSigBody key sig mac)) = Some ErrBadCommitMAC"
    by (simp add: processRevealSig_eval [OF assms])
next
  assume "sha256 d = digest k \<and> extractMPI d 0 = Some (n, v) \<and> n < length d"
  then have "checkDecryptedGx p (k\<lparr>encryptedGx := d\<rparr>) d =
               (Some ErrGxCorrupt, k\<lparr>encryptedGx := d, gx := Some v\<rparr>)"
    by (intro checkDecryptedGx_trailing [where n = n]) simp_all
  then show "fst (processRevealSig p k (revealSigBody key sig mac)) = Some ErrGxCorrupt"
    by (simp add: processRevealSig_eval [OF assms])
qed

theorem processRevealSig_corrupt_encryptedGx_witness:
  "fst (processRevealSig p127 bobAKECorrupt (revealSigBody zeroKey [] mac00)) =
     Some ErrBadCommitMAC \<and>
   fst (processRevealSig p127 bobAKETrailing (revealSigBody zeroKey [] mac00)) =
     Some ErrGxCorrupt"
  using
    processRevealSig_corrupt_encryptedGx [of zeroKey "[]" mac00 bobAKECorrupt
      "[0, 0, 0, 1, 33]" p127 0 0]
    processRevealSig_corrupt_encryptedGx [of zeroKey "[]" mac00 bobAKETrailing
      "[0, 0, 0, 1, 32, 0]" p127 5 32]
    extractMPI_32 [of "[0]"]
  by (simp add: bobAKE_fields decrypt_33 decrypt_32_0 sha256_MPI_32 sha256_MPI_33)

end
